theory Spec2Isabelle
  imports Main
begin

section \<open>Errors and byte strings\<close>

text \<open>
  Go strings and byte slices are sequences of 8-bit bytes; both are modelled as
  \<^typ>\<open>string\<close> (a list of 8-bit characters), so that \<open>[]byte(url)\<close> is the identity.
  Every error value the handlers and the storage can see is a constructor of \<open>error\<close>.
\<close>

datatype error =
    EOF
  | ErrNotFound
  | ErrNotMultipart
  | ErrMissingFile
  | ErrBodyNotAllowed
  | BackendError string
  | IoError string

section \<open>The Mongo storage (storages/mongostorage.go)\<close>

subsection \<open>Object identifiers\<close>

text \<open>
  A \<open>bson.ObjectId\<close> is a 12-byte string. \<open>Hex\<close> prints it as 24 lower-case hexadecimal
  digits, \<open>IsObjectIdHex\<close> accepts exactly the strings of length 24 that
  \<open>hex.DecodeString\<close> decodes (digits of either case), and \<open>ObjectIdHex\<close> decodes them.
\<close>

type_synonym ObjectId = string

definition hexDigit :: "nat \<Rightarrow> char" where
  "hexDigit n = ''0123456789abcdef'' ! (n mod 16)"

definition Hex :: "ObjectId \<Rightarrow> string" where
  "Hex oid = concat (map (\<lambda>c. [hexDigit (of_char c div 16), hexDigit (of_char c mod 16)]) oid)"

definition fromHexChar :: "char \<Rightarrow> nat option" where
  "fromHexChar c =
     (let n = (of_char c :: nat) in
      if 48 \<le> n \<and> n \<le> 57 then Some (n - 48)
      else if 97 \<le> n \<and> n \<le> 102 then Some (n - 97 + 10)
      else if 65 \<le> n \<and> n \<le> 70 then Some (n - 65 + 10)
      else None)"

fun DecodeString :: "string \<Rightarrow> string option" where
  "DecodeString [] = Some []"
| "DecodeString [a] = None"
| "DecodeString (a # b # rest) =
     (case (fromHexChar a, fromHexChar b, DecodeString rest) of
        (Some hi, Some lo, Some bs) \<Rightarrow> Some (char_of (hi * 16 + lo) # bs)
      | _ \<Rightarrow> None)"

definition IsObjectIdHex :: "string \<Rightarrow> bool" where
  "IsObjectIdHex s = (length s = 24 \<and> DecodeString s \<noteq> None)"

subsection \<open>Entries and the backend state\<close>

record MongoStorageConfiguration =
  DatabaseName :: string
  UploadCollectionName :: string
  FileFolderPath :: string

text \<open>
  The persisted fields of \<open>MongoStorageEntry\<close>. The two pointer fields
  (\<open>configuration\<close>, \<open>database\<close>) are the configuration and the backend state that every
  operation below takes as arguments. Times are seconds on an abstract clock.
\<close>

record MongoStorageEntry =
  Id :: ObjectId
  Author :: string
  Filename :: string
  ContentType :: string
  LastModified :: nat
  UploadDate :: nat

definition emptyEntry :: MongoStorageEntry where
  "emptyEntry = \<lparr>Id = [], Author = [], Filename = [], ContentType = [],
                  LastModified = 0, UploadDate = 0\<rparr>"

text \<open>
  The world the storage acts on: the rows of the upload collection in insertion order
  (a list, so that two rows with one id are representable and uniqueness is a property to
  prove, not a consequence of the type), the files of the blob folder by path, the
  identifiers that successive calls of \<open>bson.NewObjectId()\<close> will return, the clock,
  and two fault switches: while \<open>dbFault\<close> is set every database round trip fails with
  that message, while \<open>fsFault\<close> is set \<open>os.Create\<close> and \<open>os.Open\<close> fail.
\<close>

record world =
  rows :: "MongoStorageEntry list"
  files :: "string \<Rightarrow> string option"
  objectIds :: "ObjectId list"
  now :: nat
  dbFault :: "string option"
  fsFault :: "string option"

definition GetId :: "MongoStorageEntry \<Rightarrow> string" where
  "GetId e = Hex (Id e)"

text \<open>\<open>collection.FindId(id).Limit(1).Count()\<close>\<close>

definition Count :: "world \<Rightarrow> ObjectId \<Rightarrow> error + nat" where
  "Count wd oid =
     (case dbFault wd of
        Some msg \<Rightarrow> Inl (BackendError msg)
      | None \<Rightarrow> Inr (min 1 (length (filter (\<lambda>r. Id r = oid) (rows wd)))))"

text \<open>
  \<open>collection.Insert(entry)\<close> appends the row. The model does not make the collection
  itself reject a second row with the same id.
\<close>

definition Insert :: "MongoStorageEntry \<Rightarrow> world \<Rightarrow> error option \<times> world" where
  "Insert e wd =
     (case dbFault wd of
        Some msg \<Rightarrow> (Some (BackendError msg), wd)
      | None \<Rightarrow> (None, wd\<lparr>rows := rows wd @ [e]\<rparr>))"

text \<open>
  The loop of \<open>Save\<close>: take the next generated identifier, count the rows that carry it,
  return the error of a failed count, try again on a collision, leave the loop on a free
  identifier. The result is the identifier last assigned to the entry, the identifiers
  not yet consumed and the error, if any. The loop has no bound in the source; the model
  returns \<open>None\<close> when the identifiers listed in the world are used up before the loop
  has left.
\<close>

fun Save_loop :: "world \<Rightarrow> ObjectId list \<Rightarrow> (ObjectId \<times> ObjectId list \<times> error option) option" where
  "Save_loop wd [] = None"
| "Save_loop wd (oid # ids) =
     (case Count wd oid of
        Inl err \<Rightarrow> Some (oid, ids, Some err)
      | Inr count \<Rightarrow>
          if count \<ge> 1 then Save_loop wd ids
          else Some (oid, ids, None))"

definition Save :: "MongoStorageEntry \<Rightarrow> world \<Rightarrow> (error option \<times> MongoStorageEntry \<times> world) option" where
  "Save e wd =
     (case Save_loop wd (objectIds wd) of
        None \<Rightarrow> None
      | Some (oid, ids, Some err) \<Rightarrow> Some (Some err, e\<lparr>Id := oid\<rparr>, wd\<lparr>objectIds := ids\<rparr>)
      | Some (oid, ids, None) \<Rightarrow>
          (case Insert (e\<lparr>Id := oid\<rparr>) (wd\<lparr>objectIds := ids\<rparr>) of
             (err, wd') \<Rightarrow> Some (err, e\<lparr>Id := oid\<rparr>, wd')))"

text \<open>\<open>collection.UpdateId(id, entry)\<close> replaces the first row with that id.\<close>

fun replaceFirst :: "MongoStorageEntry \<Rightarrow> MongoStorageEntry list \<Rightarrow> MongoStorageEntry list option" where
  "replaceFirst e [] = None"
| "replaceFirst e (r # rs) =
     (if Id r = Id e then Some (e # rs)
      else map_option ((#) r) (replaceFirst e rs))"

definition Update :: "MongoStorageEntry \<Rightarrow> world \<Rightarrow> error option \<times> world" where
  "Update e wd =
     (case dbFault wd of
        Some msg \<Rightarrow> (Some (BackendError msg), wd)
      | None \<Rightarrow>
          (case replaceFirst e (rows wd) of
             None \<Rightarrow> (Some ErrNotFound, wd)
           | Some rs \<Rightarrow> (None, wd\<lparr>rows := rs\<rparr>)))"

text \<open>\<open>GetWriter\<close> is \<open>os.Create(FileFolderPath + id)\<close>: the file exists and is empty afterwards.\<close>

definition GetWriter :: "MongoStorageConfiguration \<Rightarrow> MongoStorageEntry \<Rightarrow> world \<Rightarrow> (error + string) \<times> world" where
  "GetWriter cfg e wd =
     (let path = FileFolderPath cfg @ GetId e in
      case fsFault wd of
        Some msg \<Rightarrow> (Inl (IoError msg), wd)
      | None \<Rightarrow> (Inr path, wd\<lparr>files := (files wd)(path \<mapsto> [])\<rparr>))"

text \<open>\<open>writer.Write(p)\<close> on the created file appends \<open>p\<close>.\<close>

definition fileWrite :: "string \<Rightarrow> string \<Rightarrow> world \<Rightarrow> world" where
  "fileWrite path p wd =
     wd\<lparr>files := (files wd)(path \<mapsto> (case files wd path of None \<Rightarrow> p | Some old \<Rightarrow> old @ p))\<rparr>"

text \<open>\<open>GetReadSeeker\<close> is \<open>os.Open(FileFolderPath + id)\<close>; the result is the content to read.\<close>

definition GetReadSeeker :: "MongoStorageConfiguration \<Rightarrow> MongoStorageEntry \<Rightarrow> world \<Rightarrow> error + string" where
  "GetReadSeeker cfg e wd =
     (let path = FileFolderPath cfg @ GetId e in
      case fsFault wd of
        Some msg \<Rightarrow> Inl (IoError msg)
      | None \<Rightarrow>
          (case files wd path of
             None \<Rightarrow> Inl (IoError ''no such file or directory'')
           | Some content \<Rightarrow> Inr content))"

definition NewStorageEntry :: "world \<Rightarrow> MongoStorageEntry" where
  "NewStorageEntry wd = emptyEntry\<lparr>LastModified := now wd, UploadDate := now wd\<rparr>"

text \<open>\<open>collection.FindId(id).One(result)\<close>\<close>

definition FindId_One :: "world \<Rightarrow> ObjectId \<Rightarrow> error + MongoStorageEntry" where
  "FindId_One wd oid =
     (case dbFault wd of
        Some msg \<Rightarrow> Inl (BackendError msg)
      | None \<Rightarrow>
          (case filter (\<lambda>r. Id r = oid) (rows wd) of
             [] \<Rightarrow> Inl ErrNotFound
           | r # _ \<Rightarrow> Inr r))"

text \<open>The triple returned is (success flag, error, entry), in the order of the source.\<close>

definition LoadStorageEntry :: "world \<Rightarrow> string \<Rightarrow> bool \<times> error option \<times> MongoStorageEntry" where
  "LoadStorageEntry wd ident =
     (if IsObjectIdHex ident then
        (case DecodeString ident of
           None \<Rightarrow> (False, None, emptyEntry)
         | Some oid \<Rightarrow>
             (case FindId_One wd oid of
                Inl err \<Rightarrow>
                  if err = ErrNotFound then (False, None, emptyEntry)
                  else (False, Some err, emptyEntry)
              | Inr r \<Rightarrow> (True, None, r)))
      else (False, None, emptyEntry))"

section \<open>HTTP responses and requests (net/http, gorilla/mux)\<close>

text \<open>
  A \<open>http.Header\<close> maps a key to its list of values. The response writer keeps the live
  header map, the status line once it has been written together with the header map as it
  was at that moment (what goes on the wire), and the body written so far.
  \<open>WriteHeader\<close> after the status line has been written changes nothing, \<open>Write\<close> writes
  status 200 first when none has been written and refuses a body for the statuses that
  allow none, and \<open>http.Error\<close> sets two headers, writes the status and prints the message
  followed by a newline. Header keys are kept as the source spells them.
\<close>

type_synonym header = "string \<Rightarrow> string list"

record response =
  Header :: header
  wroteHeader :: "(nat \<times> header) option"
  Body :: string

definition newResponse :: response where
  "newResponse = \<lparr>Header = (\<lambda>k. []), wroteHeader = None, Body = []\<rparr>"

definition StatusCode :: "response \<Rightarrow> nat option" where
  "StatusCode w = map_option fst (wroteHeader w)"

definition sentHeader :: "response \<Rightarrow> header" where
  "sentHeader w = (case wroteHeader w of None \<Rightarrow> (\<lambda>k. []) | Some (code, hdr) \<Rightarrow> hdr)"

definition Header_Get :: "header \<Rightarrow> string \<Rightarrow> string" where
  "Header_Get hdr k = (case hdr k of [] \<Rightarrow> [] | v # vs \<Rightarrow> v)"

definition Header_Set :: "string \<Rightarrow> string \<Rightarrow> response \<Rightarrow> response" where
  "Header_Set k v w = w\<lparr>Header := (Header w)(k := [v])\<rparr>"

definition Header_Add :: "string \<Rightarrow> string \<Rightarrow> response \<Rightarrow> response" where
  "Header_Add k v w = w\<lparr>Header := (Header w)(k := Header w k @ [v])\<rparr>"

definition WriteHeader :: "nat \<Rightarrow> response \<Rightarrow> response" where
  "WriteHeader code w =
     (case wroteHeader w of
        None \<Rightarrow> w\<lparr>wroteHeader := Some (code, Header w)\<rparr>
      | Some c \<Rightarrow> w)"

definition bodyAllowedForStatus :: "nat \<Rightarrow> bool" where
  "bodyAllowedForStatus code = (\<not> (100 \<le> code \<and> code \<le> 199) \<and> code \<noteq> 204 \<and> code \<noteq> 304)"

definition Write :: "string \<Rightarrow> response \<Rightarrow> error option \<times> response" where
  "Write p w =
     (let w1 = WriteHeader 200 w in
      case wroteHeader w1 of
        None \<Rightarrow> (None, w1)
      | Some (code, hdr) \<Rightarrow>
          if bodyAllowedForStatus code then (None, w1\<lparr>Body := Body w1 @ p\<rparr>)
          else (Some ErrBodyNotAllowed, w1))"

definition http_Error :: "string \<Rightarrow> nat \<Rightarrow> response \<Rightarrow> response" where
  "http_Error msg code w =
     snd (Write (msg @ [CHR 0x0A])
       (WriteHeader code
         (Header_Set ''X-Content-Type-Options'' ''nosniff''
           (Header_Set ''Content-Type'' ''text/plain; charset=utf-8'' w))))"

definition http_NotFound :: "response \<Rightarrow> response" where
  "http_NotFound w = http_Error ''404 page not found'' 404 w"

text \<open>
  An uploaded file as \<open>ParseMultipartForm\<close> hands it over: the client's file name, the
  bytes, and whether the parser kept them in memory (then \<open>FormFile\<close> opens a section
  reader, which has a \<open>Size\<close> method) or spilled them to a temporary file (then it opens
  an \<open>*os.File\<close>, which has none).
\<close>

record FileHeader =
  HeaderFilename :: string
  content :: string
  inMemory :: bool

text \<open>
  A request is given by its headers, the path variables that mux extracted, and the
  outcome of \<open>ParseMultipartForm(1 << 20)\<close> on its body under its declared content type:
  an error, or the files of the form by field name.
\<close>

record request =
  ReqHeader :: header
  Vars :: "string \<Rightarrow> string"
  Multipart :: "error + (string \<Rightarrow> FileHeader list)"

definition ParseMultipartForm :: "request \<Rightarrow> error + (string \<Rightarrow> FileHeader list)" where
  "ParseMultipartForm r = Multipart r"

definition FormFile :: "(string \<Rightarrow> FileHeader list) \<Rightarrow> string \<Rightarrow> error + FileHeader" where
  "FormFile form key = (case form key of [] \<Rightarrow> Inl ErrMissingFile | fh # fhs \<Rightarrow> Inr fh)"

text \<open>
  \<open>Read\<close> on an open file, for a buffer of \<open>k\<close> bytes and the bytes not yet read: at the
  end of the file it reads nothing and reports \<open>EOF\<close>; otherwise it reads up to \<open>k\<close> bytes
  without error. The result is the bytes read, the error and the bytes left.
\<close>

definition Read :: "nat \<Rightarrow> string \<Rightarrow> string \<times> error option \<times> string" where
  "Read k unread = (if unread = [] then ([], Some EOF, unread) else (take k unread, None, drop k unread))"

text \<open>The buffer after a read: the bytes read overwrite its front, the rest stays.\<close>

definition filled :: "string \<Rightarrow> string \<Rightarrow> string" where
  "filled buf bytes = bytes @ drop (length bytes) buf"

text \<open>
  \<open>strings.LastIndex(s, sep)\<close>; every call in the handlers passes the one-byte separator
  \<open>"."\<close>, so the separator is a byte. The result is \<open>-1\<close> when the byte does not occur.
\<close>

fun LastIndex :: "string \<Rightarrow> char \<Rightarrow> int" where
  "LastIndex [] sep = -1"
| "LastIndex (c # cs) sep =
     (let i = LastIndex cs sep in
      if i \<ge> 0 then i + 1 else if c = sep then 0 else -1)"

section \<open>The handler (router.go)\<close>

text \<open>
  Functions of other packages whose code is not part of this repository's sources are
  parameters: the content sniffer \<open>http.DetectContentType\<close>, \<open>strings.EqualFold\<close>, and
  the \<open>GetETagValue\<close> method of the entry, which the handler calls and which
  the Mongo entry under \<open>storages/\<close> does not define.
\<close>

record library =
  DetectContentType :: "string \<Rightarrow> string"
  EqualFold :: "string \<Rightarrow> string \<Rightarrow> bool"
  GetETagValue :: "MongoStorageEntry \<Rightarrow> string"

text \<open>
  The fields of \<open>ShareXHandler\<close> that the handlers read. \<open>Storage\<close> is the Mongo storage,
  given by its configuration; the hook \<open>OutgoingFunction\<close> is \<open>None\<close> for \<open>nil\<close> and may
  change the response writer and the request it is given.
\<close>

record ShareXHandler =
  Storage :: MongoStorageConfiguration
  OutgoingFunction :: "(response \<times> request \<Rightarrow> response \<times> request) option"
  BufferSize :: int
  ProtocolHost :: string
  WhitelistedContentTypes :: "string list"

text \<open>
  What a handler has done is recorded next to the state it works on: the calls it made
  on the hook, the request and the storage, in order, and the panic that ended it, if any.
\<close>

datatype call =
    CallOutgoingFunction
  | CallParseMultipartForm
  | CallFormFile
  | CallNewStorageEntry
  | CallSave
  | CallGetWriter
  | CallWrite nat
  | CallClose
  | CallUpdate
  | CallLoadStorageEntry string
  | CallGetReader

record state =
  resp :: response
  rq :: request
  store :: world
  calls :: "call list"
  panicked :: "string option"

definition initial :: "response \<Rightarrow> request \<Rightarrow> world \<Rightarrow> state" where
  "initial w r wd = \<lparr>resp = w, rq = r, store = wd, calls = [], panicked = None\<rparr>"

definition called :: "call \<Rightarrow> state \<Rightarrow> state" where
  "called c s = s\<lparr>calls := calls s @ [c]\<rparr>"

definition raise :: "string \<Rightarrow> state \<Rightarrow> state" where
  "raise msg s = s\<lparr>panicked := Some msg\<rparr>"

definition internalError :: "state \<Rightarrow> state" where
  "internalError s = s\<lparr>resp := http_Error ''500 an internal error occurred'' 500 (resp s)\<rparr>"

definition runOutgoingFunction :: "ShareXHandler \<Rightarrow> state \<Rightarrow> state" where
  "runOutgoingFunction h s =
     (case OutgoingFunction h of
        None \<Rightarrow> s
      | Some f \<Rightarrow>
          (case f (resp s, rq s) of
             (w', r') \<Rightarrow> called CallOutgoingFunction (s\<lparr>resp := w', rq := r'\<rparr>)))"

subsection \<open>Upload\<close>

text \<open>
  The copy loop of \<open>handleUploadRequest2\<close> (router.go, lines 85 to 96). Each round
  allocates a zeroed buffer of 8192 bytes and reads into it; it leaves the loop when
  nothing was read, reports an error that came with bytes and goes on, and otherwise
  passes the buffer to \<open>writer.Write\<close>.
\<close>

function copyLoop :: "string \<Rightarrow> string \<Rightarrow> state \<Rightarrow> state" where
  "copyLoop path unread s =
     (case Read 8192 unread of
        (bytes, err, unread') \<Rightarrow>
          let buffer = filled (replicate 8192 (CHR 0x00)) bytes;
              bytesRead = length bytes in
          if bytesRead = 0 then s
          else if err \<noteq> None then copyLoop path unread' (internalError s)
          else copyLoop path unread'
                 (called (CallWrite (length buffer)) (s\<lparr>store := fileWrite path buffer (store s)\<rparr>)))"
  by pat_completeness auto
termination
  by (relation "measure (\<lambda>(path, unread, s). length unread)") (auto simp: Read_def split: if_splits)

text \<open>
  Lines 97 to 105: update the row, then answer 200 with the URL. The slice expression
  \<open>name[strings.LastIndex(name, "."):]\<close> panics for a negative index.
\<close>

definition finishUpload :: "ShareXHandler \<Rightarrow> MongoStorageEntry \<Rightarrow> string \<Rightarrow> state \<Rightarrow> state" where
  "finishUpload h entry ident s =
     (case Update entry (store s) of
        (err, wd') \<Rightarrow>
          let s1 = called CallUpdate (s\<lparr>store := wd'\<rparr>) in
          if err \<noteq> None then internalError s1
          else
            let s2 = s1\<lparr>resp := WriteHeader 200 (resp s1)\<rparr>;
                i = LastIndex (Filename entry) (CHR ''.'') in
            if i < 0 then raise ''slice bounds out of range'' s2
            else
              let url = ProtocolHost h @ ident @ drop (nat i) (Filename entry) in
              s2\<lparr>resp := snd (Write url (resp s2))\<rparr>)"

text \<open>
  Lines 58 to 107, entered with the opened form file. The first read fills a zeroed
  512-byte buffer for the sniffer; its error is answered with 500 and the handler goes
  on. \<open>Seek(0, 0)\<close> rewinds, so the copy loop starts from the whole content. The type
  assertion to \<open>Size() int64\<close> panics for a file that is not the in-memory reader. The
  deferred \<open>writer.Close()\<close> runs last on every path behind \<open>GetWriter\<close>.
\<close>

definition storeUpload :: "library \<Rightarrow> ShareXHandler \<Rightarrow> FileHeader \<Rightarrow> state \<Rightarrow> state option" where
  "storeUpload lib h fh s =
     (case Read 512 (content fh) of
        (bytes, err, unread) \<Rightarrow>
          let fileHeader = filled (replicate 512 (CHR 0x00)) bytes;
              s1 = (if err \<noteq> None then internalError s else s);
              fileName = HeaderFilename fh in
          if \<not> inMemory fh then Some (raise ''interface conversion: missing method Size'' s1)
          else
            let mimeType = DetectContentType lib fileHeader;
                entry = NewStorageEntry (store s1);
                s2 = called CallNewStorageEntry s1 in
            (case Save entry (store s2) of
               None \<Rightarrow> None
             | Some (err, entry1, wd1) \<Rightarrow>
                 (let s3 = called CallSave (s2\<lparr>store := wd1\<rparr>) in
                  if err \<noteq> None then Some (internalError s3)
                  else
                    (let ident = GetId entry1 in
                     (case GetWriter (Storage h) entry1 (store s3) of
                        (Inl err, wd2) \<Rightarrow>
                          Some (internalError (called CallGetWriter (s3\<lparr>store := wd2\<rparr>)))
                      | (Inr path, wd2) \<Rightarrow>
                          (let s4 = called CallGetWriter (s3\<lparr>store := wd2\<rparr>);
                               entry2 = entry1\<lparr>ContentType := mimeType, Filename := fileName\<rparr>;
                               s5 = copyLoop path (content fh) s4;
                               s6 = finishUpload h entry2 ident s5
                           in Some (called CallClose s6)))))))"

text \<open>
  \<open>handleUploadRequest2\<close>: the hook, then the form. The result is \<open>None\<close> only when the
  loop of \<open>Save\<close> does not leave within the identifiers the world lists.
\<close>

definition handleUploadRequest2 :: "library \<Rightarrow> ShareXHandler \<Rightarrow> state \<Rightarrow> state option" where
  "handleUploadRequest2 lib h s =
     (let s1 = runOutgoingFunction h s;
          s2 = called CallParseMultipartForm s1 in
      (case ParseMultipartForm (rq s2) of
         Inl err \<Rightarrow> Some (internalError s2)
       | Inr form \<Rightarrow>
           (let s3 = called CallFormFile s2 in
            (case FormFile form ''file'' of
               Inl err \<Rightarrow> Some (internalError s3)
             | Inr fh \<Rightarrow> storeUpload lib h fh s3))))"

text \<open>
  \<open>handleUploadRequest\<close>, the function bound to the upload path: the hook, the call of
  \<open>handleUploadRequest2\<close>, and \<open>return\<close> under \<open>if true\<close>. The statements behind that
  return are never run and are not part of the model.
\<close>

definition handleUploadRequest :: "library \<Rightarrow> ShareXHandler \<Rightarrow> state \<Rightarrow> state option" where
  "handleUploadRequest lib h s = handleUploadRequest2 lib h (runOutgoingFunction h s)"

subsection \<open>Download\<close>

definition dispositionValueFormat :: "string \<Rightarrow> string \<Rightarrow> string" where
  "dispositionValueFormat kind name = kind @ ''; filename='' @ [CHR 0x22] @ name @ [CHR 0x22]"

text \<open>
  The \<open>for ... range\<close> loop over the whitelist with its \<open>goto inlinePassed\<close>
  (lines 217 to 223): the first member that folds equal to the entry's content type sets
  \<open>inline\<close> and leaves; when the list is exhausted \<open>attachment\<close> is set.
\<close>

fun setDisposition :: "library \<Rightarrow> string list \<Rightarrow> MongoStorageEntry \<Rightarrow> response \<Rightarrow> response" where
  "setDisposition lib [] entry w =
     Header_Set ''Content-Disposition'' (dispositionValueFormat ''attachment'' (Filename entry)) w"
| "setDisposition lib (v # vs) entry w =
     (if EqualFold lib v (ContentType entry)
      then Header_Set ''Content-Disposition'' (dispositionValueFormat ''inline'' (Filename entry)) w
      else setDisposition lib vs entry w)"

text \<open>
  The send loop (lines 229 to 241). The buffer is allocated once before the loop; each
  round reads into it, panics on an error other than \<open>EOF\<close>, leaves when nothing was
  read, and passes the buffer to \<open>w.Write\<close>, panicking when that fails.
\<close>

function sendLoop :: "string \<Rightarrow> string \<Rightarrow> state \<Rightarrow> state" where
  "sendLoop buf unread s =
     (case Read (length buf) unread of
        (bytes, err, unread') \<Rightarrow>
          let buf' = filled buf bytes;
              n = length bytes in
          if err \<noteq> None \<and> err \<noteq> Some EOF then raise ''read error'' (internalError s)
          else if n = 0 then s
          else
            (case Write buf' (resp s) of
               (Some werr, w') \<Rightarrow> raise ''write error'' (s\<lparr>resp := w'\<rparr>)
             | (None, w') \<Rightarrow> sendLoop buf' unread' (s\<lparr>resp := w'\<rparr>)))"
  by pat_completeness auto
termination
  by (relation "measure (\<lambda>(buf, unread, s). length unread)") (auto simp: Read_def split: if_splits)

text \<open>
  Lines 211 to 241: open the reader (the read capability of the Mongo entry is
  \<open>GetReadSeeker\<close>), set the headers, write status 200, allocate the buffer
  (\<open>make\<close> panics for a negative size) and send.
\<close>

definition sendEntry :: "library \<Rightarrow> ShareXHandler \<Rightarrow> MongoStorageEntry \<Rightarrow> state \<Rightarrow> state" where
  "sendEntry lib h entry s =
     (let s1 = called CallGetReader s in
      (case GetReadSeeker (Storage h) entry (store s1) of
         Inl err \<Rightarrow> raise ''reader error'' (internalError s1)
       | Inr unread \<Rightarrow>
           (let w1 = setDisposition lib (WhitelistedContentTypes h) entry (resp s1);
                w2 = Header_Set ''Content-Type'' (ContentType entry) w1;
                w3 = Header_Set ''ETag'' (GetETagValue lib entry) w2;
                w4 = WriteHeader 200 w3;
                s2 = s1\<lparr>resp := w4\<rparr> in
            if BufferSize h < 0 then raise ''makeslice: len out of range'' s2
            else sendLoop (replicate (nat (BufferSize h)) (CHR 0x00)) unread s2)))"

definition handleGetRequest :: "library \<Rightarrow> ShareXHandler \<Rightarrow> state \<Rightarrow> state" where
  "handleGetRequest lib h s =
     (let s1 = runOutgoingFunction h s;
          ident = Vars (rq s1) ''id'';
          lastDotIndex = LastIndex ident (CHR ''.'') in
      if lastDotIndex = -1 then s1\<lparr>resp := http_NotFound (resp s1)\<rparr>
      else
        let ident' = take (nat lastDotIndex) ident;
            s2 = called (CallLoadStorageEntry ident') s1 in
        case LoadStorageEntry (store s2) ident' of
          (success, err, entry) \<Rightarrow>
            if err \<noteq> None then raise ''storage error'' (internalError s2)
            else if \<not> success then s2\<lparr>resp := http_NotFound (resp s2)\<rparr>
            else if Header_Get (ReqHeader (rq s2)) ''If-None-Match'' = GetETagValue lib entry
              then s2\<lparr>resp := WriteHeader 304 (resp s2)\<rparr>
            else sendEntry lib h entry s2)"

section \<open>The second variant of the handlers\<close>

text \<open>
  Behind the storage, storages/mongostorage.go carries a second variant of
  \<open>handleUploadRequest\<close> and \<open>handleGetRequest\<close> (lines 218 to 326), which takes the
  size of the upload buffer from a field \<open>ReceiveBufferSize\<close> (here the argument
  \<open>bufSize\<close>), runs the hook once, and differs from router.go in the places marked below.
\<close>

text \<open>
  The copy loop (lines 255 to 267): the buffer has the configured size (\<open>make\<close> panics
  for a negative one) and the writer gets \<open>buffer[:bytesRead]\<close>.
\<close>

function copyLoop_sibling :: "int \<Rightarrow> string \<Rightarrow> string \<Rightarrow> state \<Rightarrow> state" where
  "copyLoop_sibling bufSize path unread s =
     (if bufSize < 0 then raise ''makeslice: len out of range'' s
      else
        (case Read (nat bufSize) unread of
           (bytes, err, unread') \<Rightarrow>
             let bytesRead = length bytes in
             if bytesRead = 0 then s
             else if err \<noteq> None then copyLoop_sibling bufSize path unread' (internalError s)
             else copyLoop_sibling bufSize path unread'
                    (called (CallWrite bytesRead) (s\<lparr>store := fileWrite path bytes (store s)\<rparr>))))"
  by pat_completeness auto
termination
  by (relation "measure (\<lambda>(bufSize, path, unread, s). length unread)") (auto simp: Read_def split: if_splits)

text \<open>
  Lines 268 to 283: a file name without a dot gives the empty file ending.
\<close>

definition finishUpload_sibling :: "ShareXHandler \<Rightarrow> MongoStorageEntry \<Rightarrow> string \<Rightarrow> state \<Rightarrow> state" where
  "finishUpload_sibling h entry ident s =
     (case Update entry (store s) of
        (err, wd') \<Rightarrow>
          let s1 = called CallUpdate (s\<lparr>store := wd'\<rparr>) in
          if err \<noteq> None then internalError s1
          else
            let s2 = s1\<lparr>resp := WriteHeader 200 (resp s1)\<rparr>;
                dotIndex = LastIndex (Filename entry) (CHR ''.'');
                fileEnding = (if dotIndex = -1 then [] else drop (nat dotIndex) (Filename entry));
                url = ProtocolHost h @ ident @ fileEnding in
            s2\<lparr>resp := snd (Write url (resp s2))\<rparr>)"

text \<open>
  Lines 230 to 285: as in router.go, without the type assertion to \<open>Size() int64\<close>. A
  panic of the copy loop ends the handler; the deferred \<open>Close\<close> still runs.
\<close>

definition storeUpload_sibling :: "library \<Rightarrow> ShareXHandler \<Rightarrow> int \<Rightarrow> FileHeader \<Rightarrow> state \<Rightarrow> state option" where
  "storeUpload_sibling lib h bufSize fh s =
     (case Read 512 (content fh) of
        (bytes, err, unread) \<Rightarrow>
          let fileHeader = filled (replicate 512 (CHR 0x00)) bytes;
              s1 = (if err \<noteq> None then internalError s else s);
              fileName = HeaderFilename fh;
              mimeType = DetectContentType lib fileHeader;
              entry = NewStorageEntry (store s1);
              s2 = called CallNewStorageEntry s1 in
          (case Save entry (store s2) of
             None \<Rightarrow> None
           | Some (err, entry1, wd1) \<Rightarrow>
               (let s3 = called CallSave (s2\<lparr>store := wd1\<rparr>) in
                if err \<noteq> None then Some (internalError s3)
                else
                  (let ident = GetId entry1 in
                   (case GetWriter (Storage h) entry1 (store s3) of
                      (Inl err, wd2) \<Rightarrow>
                        Some (internalError (called CallGetWriter (s3\<lparr>store := wd2\<rparr>)))
                    | (Inr path, wd2) \<Rightarrow>
                        (let s4 = called CallGetWriter (s3\<lparr>store := wd2\<rparr>);
                             entry2 = entry1\<lparr>ContentType := mimeType, Filename := fileName\<rparr>;
                             s5 = copyLoop_sibling bufSize path (content fh) s4;
                             s6 = (if panicked s5 \<noteq> None then s5
                                   else finishUpload_sibling h entry2 ident s5)
                         in Some (called CallClose s6)))))))"

definition handleUploadRequest_sibling :: "library \<Rightarrow> ShareXHandler \<Rightarrow> int \<Rightarrow> state \<Rightarrow> state option" where
  "handleUploadRequest_sibling lib h bufSize s =
     (let s1 = runOutgoingFunction h s;
          s2 = called CallParseMultipartForm s1 in
      (case ParseMultipartForm (rq s2) of
         Inl err \<Rightarrow> Some (internalError s2)
       | Inr form \<Rightarrow>
           (let s3 = called CallFormFile s2 in
            (case FormFile form ''file'' of
               Inl err \<Rightarrow> Some (internalError s3)
             | Inr fh \<Rightarrow> storeUpload_sibling lib h bufSize fh s3))))"

text \<open>
  The get handler of the variant (lines 293 to 326). A segment without a dot is used
  whole. A miss is handed to the router's \<open>NotFoundHandler\<close> (a call on \<open>nil\<close> when
  none is set), an error of the storage or of the reader is answered 500 without a panic,
  the \<open>Content-Type\<close> header is set on the attachment path only, and the blob is handed to
  \<open>http.ServeContent\<close>. The router's handler and \<open>http.ServeContent\<close> are parameters.
\<close>

record delivery =
  NotFoundHandler :: "(response \<times> request \<Rightarrow> response) option"
  ServeContent :: "response \<Rightarrow> request \<Rightarrow> nat \<Rightarrow> string \<Rightarrow> response"

fun setDisposition_sibling :: "library \<Rightarrow> string list \<Rightarrow> MongoStorageEntry \<Rightarrow> response \<Rightarrow> response" where
  "setDisposition_sibling lib [] entry w =
     Header_Set ''Content-Type'' (ContentType entry)
       (Header_Set ''Content-Disposition'' (dispositionValueFormat ''attachment'' (Filename entry)) w)"
| "setDisposition_sibling lib (v # vs) entry w =
     (if EqualFold lib v (ContentType entry)
      then Header_Set ''Content-Disposition'' (dispositionValueFormat ''inline'' (Filename entry)) w
      else setDisposition_sibling lib vs entry w)"

definition handleGetRequest_sibling :: "library \<Rightarrow> delivery \<Rightarrow> ShareXHandler \<Rightarrow> state \<Rightarrow> state" where
  "handleGetRequest_sibling lib d h s =
     (let s1 = runOutgoingFunction h s;
          ident = Vars (rq s1) ''id'';
          lastDotIndex = (let i = LastIndex ident (CHR ''.'') in if i = -1 then int (length ident) else i);
          ident' = take (nat lastDotIndex) ident;
          s2 = called (CallLoadStorageEntry ident') s1 in
      (case LoadStorageEntry (store s2) ident' of
         (success, err, entry) \<Rightarrow>
           if err \<noteq> None then internalError s2
           else if \<not> success then
             (case NotFoundHandler d of
                None \<Rightarrow> raise ''nil pointer dereference'' s2
              | Some handler \<Rightarrow> s2\<lparr>resp := handler (resp s2, rq s2)\<rparr>)
           else
             (let s3 = called CallGetReader s2 in
              (case GetReadSeeker (Storage h) entry (store s3) of
                 Inl err \<Rightarrow> internalError s3
               | Inr blob \<Rightarrow>
                   (let w1 = setDisposition_sibling lib (WhitelistedContentTypes h) entry (resp s3) in
                    s3\<lparr>resp := ServeContent d w1 (rq s3) (LastModified entry) blob\<rparr>)))))"

section \<open>Runs of saves, and example values\<close>

text \<open>
  A run of \<open>Save\<close> calls, one per entry, each on the world the previous one left. The
  result lists what every call returned.
\<close>

fun Save_seq :: "MongoStorageEntry list \<Rightarrow> world \<Rightarrow> ((error option \<times> MongoStorageEntry) list \<times> world) option" where
  "Save_seq [] wd = Some ([], wd)"
| "Save_seq (e # es) wd =
     (case Save e wd of
        None \<Rightarrow> None
      | Some (err, e', wd1) \<Rightarrow>
          (case Save_seq es wd1 of
             None \<Rightarrow> None
           | Some (outs, wd2) \<Rightarrow> Some ((err, e') # outs, wd2)))"

text \<open>
  Concrete values on which the theorems below are instantiated: a hook that adds a
  header as the README's does, a library whose \<open>EqualFold\<close> compares after folding the
  ASCII letters, the README's handler configuration, and a few worlds and requests.
\<close>

definition asciiLower :: "char \<Rightarrow> char" where
  "asciiLower c =
     (case map_of (zip ''ABCDEFGHIJKLMNOPQRSTUVWXYZ'' ''abcdefghijklmnopqrstuvwxyz'') c of
        None \<Rightarrow> c
      | Some l \<Rightarrow> l)"

definition exampleHook :: "response \<times> request \<Rightarrow> response \<times> request" where
  "exampleHook = (\<lambda>(w, r). (Header_Add ''Server'' ''Golang Webserver'' w, r))"

definition exampleLibrary :: library where
  "exampleLibrary =
     \<lparr>DetectContentType = (\<lambda>b. ''application/octet-stream''),
      EqualFold = (\<lambda>a b. map asciiLower a = map asciiLower b),
      GetETagValue = (\<lambda>e. Hex (Id e))\<rparr>"

definition exampleConfiguration :: MongoStorageConfiguration where
  "exampleConfiguration =
     \<lparr>DatabaseName = ''sharex'', UploadCollectionName = ''uploads'', FileFolderPath = ''files/''\<rparr>"

definition exampleHandler :: ShareXHandler where
  "exampleHandler =
     \<lparr>Storage = exampleConfiguration, OutgoingFunction = Some exampleHook, BufferSize = 1024,
      ProtocolHost = ''https://localhost/'',
      WhitelistedContentTypes = [''image/png'', ''image/jpg'', ''text/plain'']\<rparr>"

definition emptyWorld :: world where
  "emptyWorld =
     \<lparr>rows = [], files = Map.empty, objectIds = [''abcdefghijkl''], now = 7,
      dbFault = None, fsFault = None\<rparr>"

definition storedEntry :: MongoStorageEntry where
  "storedEntry =
     \<lparr>Id = ''abcdefghijkl'', Author = [], Filename = ''shot.png'', ContentType = ''IMAGE/PNG'',
      LastModified = 7, UploadDate = 7\<rparr>"

definition storedWorld :: world where
  "storedWorld =
     \<lparr>rows = [storedEntry], files = [''files/6162636465666768696a6b6c'' \<mapsto> ''hello''],
      objectIds = [''abcdefghijkl'', ''mnopqrstuvwx'', ''mnopqrstuvwx'', ''yzabcdefghij''], now = 9,
      dbFault = None, fsFault = None\<rparr>"

definition uploadOf :: "string \<Rightarrow> string \<Rightarrow> request" where
  "uploadOf name bytes =
     \<lparr>ReqHeader = (\<lambda>k. []), Vars = (\<lambda>k. []),
      Multipart = Inr (\<lambda>k. if k = ''file''
                           then [\<lparr>HeaderFilename = name, content = bytes, inMemory = True\<rparr>]
                           else [])\<rparr>"

definition notMultipart :: request where
  "notMultipart = \<lparr>ReqHeader = (\<lambda>k. []), Vars = (\<lambda>k. []), Multipart = Inl ErrNotMultipart\<rparr>"

definition getOf :: "string \<Rightarrow> string list \<Rightarrow> request" where
  "getOf seg inm =
     \<lparr>ReqHeader = (\<lambda>k. if k = ''If-None-Match'' then inm else []),
      Vars = (\<lambda>k. if k = ''id'' then seg else []),
      Multipart = Inl ErrNotMultipart\<rparr>"

section \<open>Basic facts\<close>

declare sendLoop.simps [simp del] copyLoop.simps [simp del] DecodeString.simps [simp del]

lemmas response_defs = http_Error_def http_NotFound_def Write_def WriteHeader_def Header_Set_def
  Header_Add_def Header_Get_def StatusCode_def sentHeader_def bodyAllowedForStatus_def newResponse_def

lemmas storage_defs = Save_def Count_def Insert_def Update_def GetWriter_def GetReadSeeker_def
  GetId_def fileWrite_def NewStorageEntry_def emptyEntry_def LoadStorageEntry_def FindId_One_def
  IsObjectIdHex_def

lemmas handler_defs = handleUploadRequest_def handleUploadRequest2_def storeUpload_def
  finishUpload_def handleGetRequest_def sendEntry_def runOutgoingFunction_def called_def
  internalError_def raise_def initial_def ParseMultipartForm_def FormFile_def Read_def filled_def
  dispositionValueFormat_def copyLoop.simps sendLoop.simps

lemmas example_defs = exampleLibrary_def exampleHandler_def exampleHook_def
  exampleConfiguration_def emptyWorld_def storedWorld_def storedEntry_def uploadOf_def
  notMultipart_def getOf_def asciiLower_def

lemma Hex_example: "Hex ''abcdefghijkl'' = ''6162636465666768696a6b6c''"
  by (simp add: Hex_def hexDigit_def)

lemma DecodeString_stored: "DecodeString ''6162636465666768696a6b6c'' = Some ''abcdefghijkl''"
  by code_simp

lemma DecodeString_absent: "DecodeString ''6162636465666768696a6b6d'' = Some ''abcdefghijkm''"
  by code_simp

lemma DecodeString_malformed: "DecodeString ''nosuchfile'' = None"
  by code_simp

lemmas decode_examples = DecodeString_stored DecodeString_absent DecodeString_malformed

lemma called_fields [simp]:
  "resp (called c s) = resp s" "rq (called c s) = rq s" "store (called c s) = store s"
  "panicked (called c s) = panicked s" "calls (called c s) = calls s @ [c]"
  by (simp_all add: called_def)

lemma runOutgoingFunction_store [simp]: "store (runOutgoingFunction h s) = store s"
  by (simp add: runOutgoingFunction_def split: option.splits prod.splits)

lemma runOutgoingFunction_panicked [simp]: "panicked (runOutgoingFunction h s) = panicked s"
  by (simp add: runOutgoingFunction_def split: option.splits prod.splits)

lemma runOutgoingFunction_calls:
  "calls (runOutgoingFunction h s) =
     calls s @ (case OutgoingFunction h of None \<Rightarrow> [] | Some f \<Rightarrow> [CallOutgoingFunction])"
  by (simp add: runOutgoingFunction_def split: option.splits prod.splits)

lemma runOutgoingFunction_nil: "runOutgoingFunction (h\<lparr>OutgoingFunction := None\<rparr>) s = s"
  by (simp add: runOutgoingFunction_def)

lemma http_Error_fresh:
  "wroteHeader w = None \<Longrightarrow>
     StatusCode (http_Error msg code w) = Some code \<and>
     Body (http_Error msg code w) =
       (if bodyAllowedForStatus code then Body w @ msg @ [CHR 0x0A] else Body w)"
  by (simp add: http_Error_def Write_def WriteHeader_def Header_Set_def StatusCode_def)

lemma Write_committed:
  "Write p w = (e, w') \<Longrightarrow> wroteHeader w = Some c \<Longrightarrow> wroteHeader w' = Some c"
  by (cases c) (auto simp: Write_def WriteHeader_def Let_def split: if_splits)

lemma http_Error_committed:
  "wroteHeader w = Some c \<Longrightarrow> wroteHeader (http_Error msg code w) = Some c"
  by (cases c) (simp add: http_Error_def Write_def WriteHeader_def Header_Set_def Let_def)

subsection \<open>The last dot\<close>

lemma LastIndex_absent: "sep \<notin> set s \<Longrightarrow> LastIndex s sep = -1"
  by (induction s) (auto simp: Let_def)

lemma LastIndex_present: "sep \<in> set s \<Longrightarrow> LastIndex s sep \<ge> 0"
  by (induction s) (auto simp: Let_def)

lemma LastIndex_last: "sep \<notin> set ext \<Longrightarrow> LastIndex (key @ sep # ext) sep = int (length key)"
  by (induction key) (auto simp: Let_def LastIndex_absent)

subsection \<open>The loop of Save\<close>

lemma Count_collision:
  assumes "Count wd oid = Inr c"
  shows "(c \<ge> 1) = (oid \<in> Id ` set (rows wd))"
proof -
  from assms have c: "c = min 1 (length (filter (\<lambda>r. Id r = oid) (rows wd)))"
    by (auto simp: Count_def split: option.splits)
  have "(filter (\<lambda>r. Id r = oid) (rows wd) \<noteq> []) = (oid \<in> Id ` set (rows wd))"
    by (auto simp: filter_empty_conv)
  then show ?thesis using c
    by (cases "filter (\<lambda>r. Id r = oid) (rows wd)") auto
qed

lemma Save_loop_free:
  "Save_loop wd ids = Some (oid, rest, None) \<Longrightarrow>
     dbFault wd = None \<and> oid \<notin> Id ` set (rows wd) \<and>
     (\<exists>used. ids = used @ oid # rest \<and> set used \<subseteq> Id ` set (rows wd))"
proof (induction ids)
  case Nil
  then show ?case by simp
next
  case (Cons a ids)
  show ?case
  proof (cases "Count wd a")
    case (Inl err)
    with Cons.prems show ?thesis by simp
  next
    case (Inr c)
    then have up: "dbFault wd = None"
      by (auto simp: Count_def split: option.splits)
    show ?thesis
    proof (cases "c \<ge> 1")
      case True
      with Count_collision[OF Inr] have col: "a \<in> Id ` set (rows wd)" by simp
      from Cons.prems Inr True have "Save_loop wd ids = Some (oid, rest, None)" by simp
      from Cons.IH[OF this] obtain used where
        u: "oid \<notin> Id ` set (rows wd)" "ids = used @ oid # rest" "set used \<subseteq> Id ` set (rows wd)"
        by blast
      have "a # ids = (a # used) @ oid # rest" using u by simp
      moreover have "set (a # used) \<subseteq> Id ` set (rows wd)" using u col by simp
      ultimately show ?thesis using u up by blast
    next
      case False
      with Count_collision[OF Inr] have free: "a \<notin> Id ` set (rows wd)" by simp
      from Cons.prems Inr False have "oid = a" "rest = ids" by simp_all
      then show ?thesis using up free by auto
    qed
  qed
qed

lemma Save_step:
  assumes "Save e wd = Some (err, e', wd')"
  shows "(err = None \<longrightarrow> rows wd' = rows wd @ [e'] \<and> Id e' \<notin> Id ` set (rows wd))
       \<and> (err \<noteq> None \<longrightarrow> rows wd' = rows wd)"
proof (cases "Save_loop wd (objectIds wd)")
  case None
  with assms show ?thesis by (simp add: Save_def)
next
  case (Some t)
  obtain oid rest r where t: "t = (oid, rest, r)" by (cases t)
  show ?thesis
  proof (cases r)
    case None
    from Save_loop_free[of wd "objectIds wd" oid rest] Some t None
    have f: "dbFault wd = None" "oid \<notin> Id ` set (rows wd)" by auto
    with assms Some t None show ?thesis
      by (auto simp: Save_def Insert_def)
  next
    case (Some a)
    with assms \<open>Save_loop wd (objectIds wd) = Some t\<close> t show ?thesis
      by (auto simp: Save_def)
  qed
qed

text \<open>
  A successful \<open>Save\<close> has consumed only identifiers that collide with a row, up to the
  first free one, which it gave to the entry and inserted.
\<close>

lemma Save_retries_until_free:
  assumes "Save e wd = Some (None, e', wd')"
  shows "\<exists>used. objectIds wd = used @ Id e' # objectIds wd'
           \<and> set used \<subseteq> Id ` set (rows wd) \<and> Id e' \<notin> Id ` set (rows wd)
           \<and> rows wd' = rows wd @ [e']"
proof -
  from assms obtain oid rest where
    l: "Save_loop wd (objectIds wd) = Some (oid, rest, None)"
    by (auto simp: Save_def Insert_def split: option.splits prod.splits)
  from Save_loop_free[OF l] obtain used where
    u: "dbFault wd = None" "objectIds wd = used @ oid # rest" "set used \<subseteq> Id ` set (rows wd)"
    by blast
  from assms l u(1) have "Id e' = oid" "objectIds wd' = rest"
    by (auto simp: Save_def Insert_def)
  with u Save_step[OF assms] show ?thesis by auto
qed

text \<open>
  \<open>Save\<close> returns as soon as one of the identifiers still to come is free (and also when
  the count fails before that).
\<close>

lemma Save_loop_returns:
  "\<exists>oid \<in> set ids. oid \<notin> Id ` set (rows wd) \<Longrightarrow> \<exists>r. Save_loop wd ids = Some r"
proof (induction ids)
  case Nil
  then show ?case by simp
next
  case (Cons a ids)
  show ?case
  proof (cases "Count wd a")
    case (Inl err)
    then show ?thesis by simp
  next
    case (Inr c)
    show ?thesis
    proof (cases "c \<ge> 1")
      case True
      with Count_collision[OF Inr] have "a \<in> Id ` set (rows wd)" by simp
      with Cons.prems have "\<exists>oid \<in> set ids. oid \<notin> Id ` set (rows wd)" by auto
      from Cons.IH[OF this] show ?thesis using Inr True by simp
    next
      case False
      then show ?thesis using Inr by simp
    qed
  qed
qed

lemma Save_returns:
  assumes "\<exists>oid \<in> set (objectIds wd). oid \<notin> Id ` set (rows wd)"
  shows "\<exists>r. Save e wd = Some r"
proof -
  from Save_loop_returns[OF assms] obtain r where "Save_loop wd (objectIds wd) = Some r" by blast
  then show ?thesis
    by (cases r) (auto simp: Save_def split: option.splits prod.splits)
qed

subsection \<open>The storage lookup\<close>

lemma LoadStorageEntry_miss:
  assumes "\<not> IsObjectIdHex key \<or>
           (dbFault wd = None \<and> (\<forall>oid. DecodeString key = Some oid \<longrightarrow> oid \<notin> Id ` set (rows wd)))"
  shows "LoadStorageEntry wd key = (False, None, emptyEntry)"
proof (cases "IsObjectIdHex key")
  case False
  then show ?thesis by (simp add: LoadStorageEntry_def)
next
  case True
  with assms have f: "dbFault wd = None"
    and n: "\<forall>oid. DecodeString key = Some oid \<longrightarrow> oid \<notin> Id ` set (rows wd)" by auto
  show ?thesis
  proof (cases "DecodeString key")
    case None
    with True show ?thesis by (simp add: LoadStorageEntry_def)
  next
    case (Some oid)
    with n have "oid \<notin> Id ` set (rows wd)" by simp
    then have "filter (\<lambda>r. Id r = oid) (rows wd) = []"
      by (auto simp: filter_empty_conv)
    with True Some f show ?thesis
      by (simp add: LoadStorageEntry_def FindId_One_def)
  qed
qed

subsection \<open>What the loops leave alone\<close>

lemma sendLoop_calls: "calls (sendLoop buf unread s) = calls s"
proof (induction buf unread s rule: sendLoop.induct)
  case (1 buf unread s)
  show ?case
    by (subst sendLoop.simps)
       (use 1 in \<open>auto simp: Let_def raise_def internalError_def split: prod.splits option.splits\<close>)
qed

lemma sendEntry_calls: "calls (sendEntry lib h entry s) = calls s @ [CallGetReader]"
  by (simp add: sendEntry_def Let_def raise_def internalError_def sendLoop_calls split: sum.splits)

lemma sendLoop_committed:
  "wroteHeader (resp s) = Some c \<Longrightarrow> wroteHeader (resp (sendLoop buf unread s)) = Some c"
proof (induction buf unread s rule: sendLoop.induct)
  case (1 buf unread s)
  obtain bytes err unread' where R: "Read (length buf) unread = (bytes, err, unread')"
    by (cases "Read (length buf) unread") auto
  obtain werr w' where W: "Write (filled buf bytes) (resp s) = (werr, w')"
    by (cases "Write (filled buf bytes) (resp s)") auto
  have w': "wroteHeader w' = Some c"
    using Write_committed[OF W "1.prems"] .
  show ?case
  proof (cases "err \<noteq> None \<and> err \<noteq> Some EOF")
    case True
    then show ?thesis
      using R "1.prems"
      by (subst sendLoop.simps) (simp add: Let_def raise_def internalError_def http_Error_committed)
  next
    case bad: False
    show ?thesis
    proof (cases "length bytes = 0")
      case True
      then show ?thesis using R bad "1.prems"
        by (subst sendLoop.simps) (auto simp: Let_def)
    next
      case False
      show ?thesis
      proof (cases werr)
        case None
        have "wroteHeader (resp (sendLoop (filled buf bytes) unread' (s\<lparr>resp := w'\<rparr>))) = Some c"
          using "1.IH"[OF R[symmetric] refl refl refl bad False W[symmetric] None] w'
          by simp
        then show ?thesis using R bad False W None
          by (subst sendLoop.simps) (auto simp: Let_def)
      next
        case (Some a)
        then show ?thesis using R bad False W w'
          by (subst sendLoop.simps) (auto simp: Let_def raise_def)
      qed
    qed
  qed
qed

lemma setDisposition_eq:
  "setDisposition lib vs entry w =
     Header_Set ''Content-Disposition''
       (dispositionValueFormat
          (if \<exists>v \<in> set vs. EqualFold lib v (ContentType entry) then ''inline'' else ''attachment'')
          (Filename entry)) w"
  by (induction vs) auto

lemma sendEntry_sent:
  assumes "GetReadSeeker (Storage h) entry (store s) = Inr blob"
    and "wroteHeader (resp s) = None"
  shows "wroteHeader (resp (sendEntry lib h entry s)) =
           Some (200, (Header (resp s))
             (''Content-Disposition'' :=
                [dispositionValueFormat
                   (if \<exists>v \<in> set (WhitelistedContentTypes h). EqualFold lib v (ContentType entry)
                    then ''inline'' else ''attachment'') (Filename entry)],
              ''Content-Type'' := [ContentType entry],
              ''ETag'' := [GetETagValue lib entry]))"
    (is "_ = Some ?c")
proof -
  define s2 where "s2 = (called CallGetReader s)\<lparr>resp := WriteHeader 200
      (Header_Set ''ETag'' (GetETagValue lib entry)
        (Header_Set ''Content-Type'' (ContentType entry)
          (setDisposition lib (WhitelistedContentTypes h) entry (resp (called CallGetReader s)))))\<rparr>"
  have c: "wroteHeader (resp s2) = Some ?c"
    using assms(2) by (simp add: s2_def WriteHeader_def Header_Set_def setDisposition_eq)
  have e: "sendEntry lib h entry s =
      (if BufferSize h < 0 then raise ''makeslice: len out of range'' s2
       else sendLoop (replicate (nat (BufferSize h)) (CHR 0x00)) blob s2)"
    using assms(1) by (simp add: sendEntry_def Let_def s2_def)
  show ?thesis
  proof (cases "BufferSize h < 0")
    case True
    with e c show ?thesis by (simp add: raise_def)
  next
    case False
    with e sendLoop_committed[OF c] show ?thesis by simp
  qed
qed

lemma copyLoop_calls:
  "\<exists>rest. calls (copyLoop path unread s) = calls s @ rest \<and> (\<forall>c \<in> set rest. \<exists>n. c = CallWrite n)"
proof (induction path unread s rule: copyLoop.induct)
  case (1 path unread s)
  obtain bytes err unread' where R: "Read 8192 unread = (bytes, err, unread')"
    by (cases "Read 8192 unread") auto
  show ?case
  proof (cases "length bytes = 0")
    case True
    then show ?thesis using R by (subst copyLoop.simps) (simp add: Let_def)
  next
    case False
    show ?thesis
    proof (cases "err \<noteq> None")
      case True
      from "1.IH"(1)[OF R[symmetric] refl refl refl False True]
      obtain rest where "calls (copyLoop path unread' (internalError s)) = calls (internalError s) @ rest"
        "\<forall>c \<in> set rest. \<exists>n. c = CallWrite n" by blast
      then show ?thesis using R False True
        by (subst copyLoop.simps) (auto simp: Let_def internalError_def)
    next
      case noerr: False
      define s2 where "s2 = called (CallWrite (length (filled (replicate 8192 (CHR 0x00)) bytes)))
          (s\<lparr>store := fileWrite path (filled (replicate 8192 (CHR 0x00)) bytes) (store s)\<rparr>)"
      from "1.IH"(2)[OF R[symmetric] refl refl refl False noerr]
      obtain rest where r: "calls (copyLoop path unread' s2) = calls s2 @ rest"
        "\<forall>c \<in> set rest. \<exists>n. c = CallWrite n" unfolding s2_def by blast
      have e: "copyLoop path unread s = copyLoop path unread' s2"
        using R False noerr by (subst copyLoop.simps) (simp add: Let_def s2_def)
      have "calls s2 = calls s @ [CallWrite (length (filled (replicate 8192 (CHR 0x00)) bytes))]"
        by (simp add: s2_def)
      with r e have "calls (copyLoop path unread s) =
          calls s @ (CallWrite (length (filled (replicate 8192 (CHR 0x00)) bytes)) # rest)" by simp
      moreover have "\<forall>c \<in> set (CallWrite (length (filled (replicate 8192 (CHR 0x00)) bytes)) # rest).
          \<exists>n. c = CallWrite n"
        using r(2) by simp
      ultimately show ?thesis by blast
    qed
  qed
qed

lemma finishUpload_calls: "calls (finishUpload h entry ident s) = calls s @ [CallUpdate]"
  by (simp add: finishUpload_def Let_def internalError_def raise_def split: prod.splits)

lemma storeUpload_calls:
  assumes "storeUpload lib h fh s = Some s'"
  shows "\<exists>rest. calls s' = calls s @ rest
           \<and> CallOutgoingFunction \<notin> set rest \<and> CallParseMultipartForm \<notin> set rest"
proof -
  have loop: "\<exists>rest. calls (called CallClose (finishUpload h e i (copyLoop path (content fh) t))) = calls t @ rest
       \<and> CallOutgoingFunction \<notin> set rest \<and> CallParseMultipartForm \<notin> set rest" for e i path t
  proof -
    from copyLoop_calls[of path "content fh" t] obtain rest where
      r: "calls (copyLoop path (content fh) t) = calls t @ rest" "\<forall>c \<in> set rest. \<exists>n. c = CallWrite n"
      by blast
    have "calls (called CallClose (finishUpload h e i (copyLoop path (content fh) t))) =
        calls t @ (rest @ [CallUpdate, CallClose])"
      using r(1) by (simp add: finishUpload_calls)
    moreover have "CallOutgoingFunction \<notin> set (rest @ [CallUpdate, CallClose])
        \<and> CallParseMultipartForm \<notin> set (rest @ [CallUpdate, CallClose])"
      using r(2) by auto
    ultimately show ?thesis by blast
  qed
  obtain bytes err unread where R: "Read 512 (content fh) = (bytes, err, unread)"
    by (cases "Read 512 (content fh)") auto
  define s1 where "s1 = (if err \<noteq> None then internalError s else s)"
  have c1: "calls s1 = calls s" by (simp add: s1_def internalError_def)
  show ?thesis
  proof (cases "inMemory fh")
    case False
    with assms R have "s' = raise ''interface conversion: missing method Size'' s1"
      by (simp add: storeUpload_def Let_def s1_def)
    with c1 show ?thesis by (simp add: raise_def)
  next
    case mem: True
    define s2 where "s2 = called CallNewStorageEntry s1"
    from assms R mem obtain serr entry1 wd1 where
      S: "Save (NewStorageEntry (store s1)) (store s2) = Some (serr, entry1, wd1)"
      by (auto simp: storeUpload_def Let_def s1_def s2_def split: option.splits)
    define s3 where "s3 = called CallSave (s2\<lparr>store := wd1\<rparr>)"
    have c3: "calls s3 = calls s @ [CallNewStorageEntry, CallSave]"
      by (simp add: s3_def s2_def c1)
    show ?thesis
    proof (cases serr)
      case (Some e)
      with assms R mem S have "s' = internalError s3"
        by (simp add: storeUpload_def Let_def s1_def s2_def s3_def)
      with c3 show ?thesis by (simp add: internalError_def)
    next
      case None
      obtain res wd2 where G: "GetWriter (Storage h) entry1 (store s3) = (res, wd2)"
        by (cases "GetWriter (Storage h) entry1 (store s3)") auto
      define s4 where "s4 = called CallGetWriter (s3\<lparr>store := wd2\<rparr>)"
      have c4: "calls s4 = calls s @ [CallNewStorageEntry, CallSave, CallGetWriter]"
        by (simp add: s4_def c3)
      show ?thesis
      proof (cases res)
        case (Inl e)
        with assms R mem S None G have "s' = internalError s4"
          by (simp add: storeUpload_def Let_def s1_def s2_def s3_def s4_def)
        with c4 show ?thesis by (simp add: internalError_def)
      next
        case (Inr path)
        with assms R mem S None G have "s' = called CallClose
            (finishUpload h (entry1\<lparr>ContentType := DetectContentType lib (filled (replicate 512 (CHR 0x00)) bytes),
                                   Filename := HeaderFilename fh\<rparr>) (GetId entry1)
               (copyLoop path (content fh) s4))"
          by (simp add: storeUpload_def Let_def s1_def s2_def s3_def s4_def)
        with loop[of _ _ path s4] obtain rest where
          "calls s' = calls s4 @ rest" "CallOutgoingFunction \<notin> set rest" "CallParseMultipartForm \<notin> set rest"
          by blast
        with c4 have "calls s' = calls s @ ([CallNewStorageEntry, CallSave, CallGetWriter] @ rest)"
          "CallOutgoingFunction \<notin> set ([CallNewStorageEntry, CallSave, CallGetWriter] @ rest)"
          "CallParseMultipartForm \<notin> set ([CallNewStorageEntry, CallSave, CallGetWriter] @ rest)"
          by simp_all
        then show ?thesis by blast
      qed
    qed
  qed
qed

lemma storeUpload_hook_irrelevant:
  "storeUpload lib (h\<lparr>OutgoingFunction := x\<rparr>) fh s = storeUpload lib h fh s"
  by (simp add: storeUpload_def finishUpload_def Let_def split: prod.splits option.splits sum.splits)

lemma sendEntry_hook_irrelevant:
  "sendEntry lib (h\<lparr>OutgoingFunction := x\<rparr>) entry s = sendEntry lib h entry s"
  by (simp add: sendEntry_def Let_def split: sum.splits)

text \<open>
  What the copy loop of the upload leaves in the file it writes to: whatever the length of
  the upload, a whole number of 8192-byte buffers.
\<close>

lemma internalError_store [simp]: "store (internalError s) = store s"
  by (simp add: internalError_def)

lemma copyLoop_blob:
  "files (store s) path = Some old \<Longrightarrow>
     \<exists>blob. files (store (copyLoop path unread s)) path = Some (old @ blob)
          \<and> length blob = 8192 * ((length unread + 8191) div 8192)"
proof (induction path unread s arbitrary: old rule: copyLoop.induct)
  case (1 path unread s)
  show ?case
  proof (cases "unread = []")
    case True
    then show ?thesis using "1.prems"
      by (subst copyLoop.simps) (simp add: Read_def)
  next
    case False
    define buffer where "buffer = filled (replicate 8192 (CHR 0x00)) (take 8192 unread)"
    define s2 where "s2 = called (CallWrite (length buffer)) (s\<lparr>store := fileWrite path buffer (store s)\<rparr>)"
    have R: "Read 8192 unread = (take 8192 unread, None, drop 8192 unread)"
      using False by (simp add: Read_def)
    have n: "length (take 8192 unread) \<noteq> 0" using False by simp
    have lb: "length buffer = 8192"
      by (simp add: buffer_def filled_def)
    have f2: "files (store s2) path = Some (old @ buffer)"
      using "1.prems" by (simp add: s2_def fileWrite_def)
    have e: "copyLoop path unread s = copyLoop path (drop 8192 unread) s2"
      using R n by (subst copyLoop.simps) (simp add: Let_def s2_def buffer_def)
    from "1.IH"(2)[OF R[symmetric] refl refl refl n _ f2[unfolded s2_def buffer_def]]
    obtain blob where b: "files (store (copyLoop path (drop 8192 unread) s2)) path = Some ((old @ buffer) @ blob)"
      "length blob = 8192 * ((length (drop 8192 unread) + 8191) div 8192)"
      unfolding s2_def buffer_def by auto
    have "length (buffer @ blob) = 8192 * ((length unread + 8191) div 8192)"
    proof (cases "length unread \<le> 8192")
      case True
      then have z: "length blob = 0" using b(2) by simp
      obtain m where m: "length unread = Suc m"
        using \<open>unread \<noteq> []\<close> by (cases unread) auto
      with True have "m < 8192" by simp
      then have "(m + 8192) div 8192 = 1" by simp
      with m have "(length unread + 8191) div 8192 = 1" by simp
      with z show ?thesis using lb by simp
    next
      case False
      then obtain k where k: "length unread = k + 8192" by (metis le_add_diff_inverse2 nat_le_linear)
      have "length unread + 8191 = (k + 8191) + 8192" using k by simp
      then have "(length unread + 8191) div 8192 = (k + 8191) div 8192 + 1"
        by (simp only: div_add_self2)
      moreover have "length (drop 8192 unread) = k" using k by simp
      ultimately show ?thesis using b(2) lb by simp
    qed
    with b(1) e show ?thesis by (metis append.assoc)
  qed
qed

section \<open>Facts about the second variant\<close>

declare copyLoop_sibling.simps [simp del]

text \<open>
  With a positive buffer size the copy loop of the variant leaves exactly the bytes it
  was given in the file.
\<close>

lemma copyLoop_sibling_blob:
  "0 < bufSize \<Longrightarrow> files (store s) path = Some old \<Longrightarrow>
     files (store (copyLoop_sibling bufSize path unread s)) path = Some (old @ unread)
     \<and> resp (copyLoop_sibling bufSize path unread s) = resp s
     \<and> panicked (copyLoop_sibling bufSize path unread s) = panicked s
     \<and> rows (store (copyLoop_sibling bufSize path unread s)) = rows (store s)
     \<and> dbFault (store (copyLoop_sibling bufSize path unread s)) = dbFault (store s)"
proof (induction bufSize path unread s arbitrary: old rule: copyLoop_sibling.induct)
  case (1 bufSize path unread s)
  show ?case
  proof (cases "unread = []")
    case True
    have "copyLoop_sibling bufSize path [] s = s"
      using "1.prems"(1) by (subst copyLoop_sibling.simps) (simp add: Read_def)
    with True show ?thesis using "1.prems" by simp
  next
    case False
    define s2 where "s2 = called (CallWrite (length (take (nat bufSize) unread)))
        (s\<lparr>store := fileWrite path (take (nat bufSize) unread) (store s)\<rparr>)"
    have R: "Read (nat bufSize) unread = (take (nat bufSize) unread, None, drop (nat bufSize) unread)"
      using False by (simp add: Read_def)
    have n: "length (take (nat bufSize) unread) \<noteq> 0" using False "1.prems"(1) by simp
    have f2: "files (store s2) path = Some (old @ take (nat bufSize) unread)"
      using "1.prems" by (simp add: s2_def fileWrite_def)
    have e: "copyLoop_sibling bufSize path unread s = copyLoop_sibling bufSize path (drop (nat bufSize) unread) s2"
      using R n "1.prems"(1) by (subst copyLoop_sibling.simps) (simp add: Let_def s2_def)
    have neg: "\<not> bufSize < 0" using "1.prems"(1) by simp
    from "1.IH"(2)[OF neg R[symmetric] refl refl n _ "1.prems"(1) f2[unfolded s2_def]]
    have "files (store (copyLoop_sibling bufSize path (drop (nat bufSize) unread) s2)) path
            = Some ((old @ take (nat bufSize) unread) @ drop (nat bufSize) unread)
        \<and> resp (copyLoop_sibling bufSize path (drop (nat bufSize) unread) s2) = resp s2
        \<and> panicked (copyLoop_sibling bufSize path (drop (nat bufSize) unread) s2) = panicked s2
        \<and> rows (store (copyLoop_sibling bufSize path (drop (nat bufSize) unread) s2)) = rows (store s2)
        \<and> dbFault (store (copyLoop_sibling bufSize path (drop (nat bufSize) unread) s2)) = dbFault (store s2)"
      unfolding s2_def by simp
    with e show ?thesis by (simp add: s2_def fileWrite_def)
  qed
qed


lemma Save_frame:
  assumes "Save e wd = Some (err, e', wd')"
  shows "files wd' = files wd \<and> dbFault wd' = dbFault wd \<and> fsFault wd' = fsFault wd"
  using assms
  by (auto simp: Save_def Insert_def split: option.splits prod.splits)

lemma replaceFirst_present:
  "Id e \<in> Id ` set rs \<Longrightarrow> \<exists>rs'. replaceFirst e rs = Some rs'"
  by (induction rs) auto

lemma Update_present:
  assumes "dbFault wd = None" and "Id e \<in> Id ` set (rows wd)"
  shows "\<exists>wd'. Update e wd = (None, wd') \<and> files wd' = files wd"
proof -
  from replaceFirst_present[OF assms(2)] obtain rs' where "replaceFirst e (rows wd) = Some rs'"
    by blast
  with assms(1) show ?thesis by (simp add: Update_def)
qed

text \<open>
  An upload of a non-empty file to the variant, with the storage working and the status
  line still unwritten behind the hook: the answer is 200, the body is the protocol host,
  the id and the file ending (empty for a name without a dot), and the blob stored under
  the id is the uploaded file.
\<close>

lemma sibling_upload_round_trip:
  assumes "s3 = called CallFormFile (called CallParseMultipartForm (runOutgoingFunction h (initial w r wd)))"
    and "ParseMultipartForm (rq s3) = Inr form"
    and "FormFile form ''file'' = Inr fh"
    and "content fh \<noteq> []"
    and "wroteHeader (resp s3) = None"
    and "fsFault wd = None"
    and "Save (NewStorageEntry wd) wd = Some (None, entry1, wd1)"
    and "0 < bufSize"
  shows "\<exists>s'. handleUploadRequest_sibling lib h bufSize (initial w r wd) = Some s'
           \<and> StatusCode (resp s') = Some 200
           \<and> Body (resp s') = Body (resp s3) @ ProtocolHost h @ GetId entry1 @
                (if CHR ''.'' \<in> set (HeaderFilename fh)
                 then drop (nat (LastIndex (HeaderFilename fh) (CHR ''.''))) (HeaderFilename fh)
                 else [])
           \<and> files (store s') (FileFolderPath (Storage h) @ GetId entry1) = Some (content fh)
           \<and> panicked s' = None"
proof -
  have st3: "store s3 = wd" "panicked s3 = None"
    using assms(1) by (simp_all add: initial_def)
  note sv = Save_step[OF assms(7)] Save_frame[OF assms(7)]
  have up: "dbFault wd = None"
    using assms(7) by (auto simp: Save_def Insert_def split: option.splits prod.splits)
  define path where "path = FileFolderPath (Storage h) @ GetId entry1"
  define s4 where "s4 = called CallGetWriter
      ((called CallSave ((called CallNewStorageEntry s3)\<lparr>store := wd1\<rparr>))
         \<lparr>store := wd1\<lparr>files := (files wd1)(path \<mapsto> [])\<rparr>\<rparr>)"
  define entry2 where "entry2 = entry1\<lparr>ContentType := DetectContentType lib
      (filled (replicate 512 (CHR 0x00)) (take 512 (content fh))), Filename := HeaderFilename fh\<rparr>"
  define s5 where "s5 = copyLoop_sibling bufSize path (content fh) s4"
  have R: "Read 512 (content fh) = (take 512 (content fh), None, drop 512 (content fh))"
    using assms(4) by (simp add: Read_def)
  have G: "GetWriter (Storage h) entry1 wd1 = (Inr path, wd1\<lparr>files := (files wd1)(path \<mapsto> [])\<rparr>)"
    using sv assms(6) by (simp add: GetWriter_def path_def Let_def)
  have run: "handleUploadRequest_sibling lib h bufSize (initial w r wd) =
      Some (called CallClose (if panicked s5 \<noteq> None then s5
                              else finishUpload_sibling h entry2 (GetId entry1) s5))"
    using assms(1,2,3,7) R G st3
    by (simp add: handleUploadRequest_sibling_def storeUpload_sibling_def Let_def
          s4_def s5_def entry2_def)
  have f4: "files (store s4) path = Some []" by (simp add: s4_def)
  from copyLoop_sibling_blob[OF assms(8) f4, of "content fh"]
  have c5: "files (store s5) path = Some (content fh)" "resp s5 = resp s4"
    "panicked s5 = panicked s4" "rows (store s5) = rows (store s4)"
    "dbFault (store s5) = dbFault (store s4)"
    by (simp_all add: s5_def)
  have p5: "panicked s5 = None" "resp s5 = resp s3" "rows (store s5) = rows wd @ [entry1]"
    "dbFault (store s5) = None"
    using c5 st3 sv up by (simp_all add: s4_def)
  have "Id entry2 \<in> Id ` set (rows (store s5))"
    using p5(3) by (simp add: entry2_def)
  from Update_present[OF p5(4) this] obtain wd5 where
    U: "Update entry2 (store s5) = (None, wd5)" "files wd5 = files (store s5)" by blast
  have li: "(LastIndex (HeaderFilename fh) (CHR ''.'') = -1) = (CHR ''.'' \<notin> set (HeaderFilename fh))"
    using LastIndex_absent[of "CHR ''.''" "HeaderFilename fh"]
      LastIndex_present[of "CHR ''.''" "HeaderFilename fh"] by auto
  define s' where "s' = called CallClose (finishUpload_sibling h entry2 (GetId entry1) s5)"
  have fin: "StatusCode (resp s') = Some 200"
    "Body (resp s') = Body (resp s3) @ ProtocolHost h @ GetId entry1 @
                (if CHR ''.'' \<in> set (HeaderFilename fh)
                 then drop (nat (LastIndex (HeaderFilename fh) (CHR ''.''))) (HeaderFilename fh)
                 else [])"
    "files (store s') path = Some (content fh)" "panicked s' = None"
    using U p5 c5(1) assms(5) li
    by (simp_all add: s'_def finishUpload_sibling_def Let_def Write_def WriteHeader_def
          StatusCode_def bodyAllowedForStatus_def entry2_def)
  from run p5(1) have "handleUploadRequest_sibling lib h bufSize (initial w r wd) = Some s'"
    by (simp add: s'_def)
  with fin show ?thesis unfolding path_def by blast
qed


text \<open>
  In the variant a bare identifier and the identifier followed by an extension are
  looked up under the same key.
\<close>

lemma sibling_get_lookup_key:
  assumes "s1 = runOutgoingFunction h (initial w r wd)"
    and "seg = Vars (rq s1) ''id''"
    and "s' = handleGetRequest_sibling lib d h (initial w r wd)"
    and "CHR ''.'' \<notin> set key"
    and "seg = key \<or> (\<exists>ext. seg = key @ CHR ''.'' # ext \<and> CHR ''.'' \<notin> set ext)"
  shows "\<exists>rest. calls s' = calls s1 @ CallLoadStorageEntry key # rest"
proof -
  have k: "take (nat (let i = LastIndex seg (CHR ''.'') in if i = -1 then int (length seg) else i)) seg = key"
    using assms(4,5) by (auto simp: LastIndex_absent LastIndex_last Let_def)
  show ?thesis
    unfolding assms(3) handleGetRequest_sibling_def
    using k assms(1,2)
    by (auto simp: Let_def raise_def internalError_def split: prod.splits option.splits sum.splits)
qed

lemma sibling_upload_example:
  "\<exists>s'. handleUploadRequest_sibling exampleLibrary exampleHandler 1024
            (initial newResponse (uploadOf ''README'' ''A'') emptyWorld) = Some s'
      \<and> StatusCode (resp s') = Some 200
      \<and> Body (resp s') = ''https://localhost/6162636465666768696a6b6c''
      \<and> files (store s') ''files/6162636465666768696a6b6c'' = Some ''A''"
  by (simp add: handleUploadRequest_sibling_def storeUpload_sibling_def finishUpload_sibling_def
        copyLoop_sibling.simps handler_defs response_defs storage_defs example_defs Hex_example Let_def)

section \<open>The claims\<close>

subsection \<open>C1: the stored blob and the uploaded bytes\<close>

text \<open>
  C1. After every successful upload the blob stored under the returned identifier is
  exactly the uploaded file, of the same length, copied in chunks of a fixed size. The
  copy loop of \<open>handleUploadRequest2\<close> in router.go passes the whole 8192-byte buffer to
  the writer in every round, not the part the read has filled, so that the blob is always
  a whole number of buffers long (lemma \<open>copyLoop_blob\<close>). The upload of the one-byte file
  \<open>A\<close> named \<open>a.txt\<close> is answered 200 with the URL of the entry, and the blob stored under
  that identifier is 8192 bytes long: the byte \<open>A\<close> and 8191 zero bytes. The second
  variant of the handler stores the uploaded bytes (lemma \<open>sibling_upload_round_trip\<close>).
\<close>

theorem upload_blob_is_padded:
  "\<exists>s. handleUploadRequest exampleLibrary exampleHandler
          (initial newResponse (uploadOf ''a.txt'' ''A'') emptyWorld) = Some s
      \<and> StatusCode (resp s) = Some 200 \<and> panicked s = None
      \<and> Body (resp s) = ''https://localhost/6162636465666768696a6b6c.txt''
      \<and> files (store s) ''files/6162636465666768696a6b6c'' = Some (''A'' @ replicate 8191 (CHR 0x00))
      \<and> length (''A'' @ replicate 8191 (CHR 0x00)) = 8192
      \<and> calls s = [CallOutgoingFunction, CallOutgoingFunction, CallParseMultipartForm, CallFormFile,
                    CallNewStorageEntry, CallSave, CallGetWriter, CallWrite 8192, CallUpdate, CallClose]"
  by (simp add: handler_defs response_defs storage_defs example_defs Hex_example Let_def)

subsection \<open>C2: the lookup key of a get request\<close>

text \<open>
  C2. The get handler strips everything from the last dot of the id segment on to obtain
  the lookup key, and a segment without a dot is used whole, so that a bare identifier
  resolves the entry that the identifier with an extension resolves. \<open>handleGetRequest\<close>
  in router.go does the first and not the second: a segment without a dot is answered
  404 before the storage is asked. The bare identifier of the stored entry is not
  found; the same identifier followed by \<open>.png\<close> is delivered. The second variant of
  the handler looks both up under the same key (lemma \<open>sibling_get_lookup_key\<close>).
\<close>

theorem get_bare_identifier_not_found:
  "LoadStorageEntry storedWorld ''6162636465666768696a6b6c'' = (True, None, storedEntry)
   \<and> StatusCode (resp (handleGetRequest exampleLibrary exampleHandler
        (initial newResponse (getOf ''6162636465666768696a6b6c'' []) storedWorld))) = Some 404
   \<and> calls (handleGetRequest exampleLibrary exampleHandler
        (initial newResponse (getOf ''6162636465666768696a6b6c'' []) storedWorld)) = [CallOutgoingFunction]
   \<and> StatusCode (resp (handleGetRequest exampleLibrary exampleHandler
        (initial newResponse (getOf ''6162636465666768696a6b6c.png'' []) storedWorld))) = Some 200
   \<and> calls (handleGetRequest exampleLibrary exampleHandler
        (initial newResponse (getOf ''6162636465666768696a6b6c.png'' []) storedWorld))
       = [CallOutgoingFunction, CallLoadStorageEntry ''6162636465666768696a6b6c'', CallGetReader]"
  by (simp add: handler_defs response_defs storage_defs example_defs decode_examples Hex_example Let_def)

text \<open>
  What \<open>handleGetRequest\<close> does with the segment, for every request: when the segment
  contains a dot, the lookup key passed to the storage is the segment up to its last dot,
  whatever follows that dot; when it contains none, the answer is 404 Not Found and the
  storage is not asked.
\<close>

lemma get_lookup_key:
  assumes "s1 = runOutgoingFunction h (initial w r wd)"
    and "seg = Vars (rq s1) ''id''"
    and "s' = handleGetRequest lib h (initial w r wd)"
  shows "(\<forall>key ext. seg = key @ CHR ''.'' # ext \<and> CHR ''.'' \<notin> set ext \<longrightarrow>
            (\<exists>rest. calls s' = calls s1 @ CallLoadStorageEntry key # rest))
       \<and> (CHR ''.'' \<notin> set seg \<longrightarrow>
            resp s' = http_NotFound (resp s1) \<and> calls s' = calls s1 \<and> store s' = wd \<and>
            (wroteHeader (resp s1) = None \<longrightarrow> StatusCode (resp s') = Some 404))"
proof (intro conjI allI impI)
  fix key ext
  assume a: "seg = key @ CHR ''.'' # ext \<and> CHR ''.'' \<notin> set ext"
  then have li: "LastIndex seg (CHR ''.'') = int (length key)"
    by (simp add: LastIndex_last)
  have tk: "take (length key) seg = key" using a by simp
  show "\<exists>rest. calls s' = calls s1 @ CallLoadStorageEntry key # rest"
    unfolding assms(3) handleGetRequest_def
    using li tk assms(1,2)
    by (auto simp: Let_def raise_def internalError_def sendEntry_calls split: prod.splits)
next
  assume "CHR ''.'' \<notin> set seg"
  then have li: "LastIndex seg (CHR ''.'') = -1" by (simp add: LastIndex_absent)
  then show "resp s' = http_NotFound (resp s1)"
    unfolding assms(3) handleGetRequest_def using assms(1,2) by (simp add: Let_def)
  from li show "calls s' = calls s1"
    unfolding assms(3) handleGetRequest_def using assms(1,2) by (simp add: Let_def)
  from li show "store s' = wd"
    unfolding assms(3) handleGetRequest_def using assms(1,2) by (simp add: Let_def initial_def)
  assume "wroteHeader (resp s1) = None"
  with li show "StatusCode (resp s') = Some 404"
    unfolding assms(3) handleGetRequest_def using assms(1,2)
    by (simp add: Let_def http_NotFound_def http_Error_fresh)
qed

text \<open>A segment with two dots: the key ends before the last one.\<close>

lemma get_lookup_key_example:
  "(\<exists>rest. calls (handleGetRequest exampleLibrary exampleHandler
        (initial newResponse (getOf ''archive.tar.gz'' []) storedWorld))
       = [CallOutgoingFunction] @ CallLoadStorageEntry ''archive.tar'' # rest)
   \<and> StatusCode (resp (handleGetRequest exampleLibrary exampleHandler
        (initial newResponse (getOf ''6162636465666768696a6b6c'' []) storedWorld))) = Some 404"
proof -
  have f: "Vars (rq (runOutgoingFunction exampleHandler
               (initial newResponse (getOf seg []) storedWorld))) ''id'' = seg"
    "calls (runOutgoingFunction exampleHandler
               (initial newResponse (getOf seg []) storedWorld)) = [CallOutgoingFunction]"
    "wroteHeader (resp (runOutgoingFunction exampleHandler
               (initial newResponse (getOf seg []) storedWorld))) = None" for seg
    by (simp_all add: runOutgoingFunction_def initial_def called_def response_defs
          exampleHandler_def exampleHook_def getOf_def)
  note t = get_lookup_key[where h = exampleHandler and w = newResponse and wd = storedWorld
        and lib = exampleLibrary, OF refl refl refl]
  from t[of "getOf ''archive.tar.gz'' []", THEN conjunct1, rule_format, of "''archive.tar''" "''gz''"]
  have a: "\<exists>rest. calls (handleGetRequest exampleLibrary exampleHandler
        (initial newResponse (getOf ''archive.tar.gz'' []) storedWorld))
       = [CallOutgoingFunction] @ CallLoadStorageEntry ''archive.tar'' # rest"
    by (simp add: f)
  have d: "CHR ''.'' \<notin> set (Vars (rq (runOutgoingFunction exampleHandler
               (initial newResponse (getOf ''6162636465666768696a6b6c'' []) storedWorld))) ''id'')"
    by (simp add: f)
  from t[of "getOf ''6162636465666768696a6b6c'' []", THEN conjunct2, rule_format, OF d]
    f(3)[of "''6162636465666768696a6b6c''"]
  have b: "StatusCode (resp (handleGetRequest exampleLibrary exampleHandler
        (initial newResponse (getOf ''6162636465666768696a6b6c'' []) storedWorld))) = Some 404"
    by blast
  from a b show ?thesis by blast
qed

subsection \<open>C3: an upload that is not multipart\<close>

text \<open>
  C3 states that an upload request whose declared content type is not parseable
  multipart data is answered with client error 400 and creates no entry. The handler
  creates no entry, but the status it writes is 500: the request below, which
  \<open>ParseMultipartForm\<close> rejects as not multipart, is answered 500.
\<close>

theorem upload_not_multipart_counterexample:
  "ParseMultipartForm notMultipart = Inl ErrNotMultipart
   \<and> (\<exists>s. handleUploadRequest exampleLibrary exampleHandler (initial newResponse notMultipart emptyWorld) = Some s
          \<and> StatusCode (resp s) = Some 500 \<and> StatusCode (resp s) \<noteq> Some 400)"
  by (simp add: handler_defs response_defs example_defs Let_def)

text \<open>
  C3, amended. For every upload request whose body \<open>ParseMultipartForm\<close> does not accept
  under its declared content type, the handler answers with status 500 and the message
  \<open>500 an internal error occurred\<close>, and no entry is created: the storage is left as it
  was and neither \<open>NewStorageEntry\<close> nor \<open>Save\<close> is called. The status is the one on
  the wire when the hook has left the status line unwritten.
\<close>

theorem upload_parse_error:
  assumes "s2 = runOutgoingFunction h (runOutgoingFunction h (initial w r wd))"
    and "ParseMultipartForm (rq s2) = Inl err"
    and "wroteHeader (resp s2) = None"
  shows "\<exists>s'. handleUploadRequest lib h (initial w r wd) = Some s'
           \<and> StatusCode (resp s') = Some 500
           \<and> Body (resp s') = Body (resp s2) @ ''500 an internal error occurred'' @ [CHR 0x0A]
           \<and> store s' = wd \<and> panicked s' = None
           \<and> calls s' = calls s2 @ [CallParseMultipartForm]
           \<and> CallNewStorageEntry \<notin> set (calls s') \<and> CallSave \<notin> set (calls s')"
  using assms
  by (simp add: handleUploadRequest_def handleUploadRequest2_def Let_def internalError_def
        http_Error_fresh bodyAllowedForStatus_def runOutgoingFunction_calls initial_def
        split: option.splits)

theorem upload_parse_error_witness:
  "ParseMultipartForm notMultipart = Inl ErrNotMultipart
   \<and> (\<exists>s'. handleUploadRequest exampleLibrary exampleHandler (initial newResponse notMultipart storedWorld) = Some s'
           \<and> StatusCode (resp s') = Some 500
           \<and> Body (resp s') = ''500 an internal error occurred'' @ [CHR 0x0A]
           \<and> store s' = storedWorld
           \<and> calls s' = [CallOutgoingFunction, CallOutgoingFunction, CallParseMultipartForm])"
proof -
  define s2 where "s2 = runOutgoingFunction exampleHandler
      (runOutgoingFunction exampleHandler (initial newResponse notMultipart storedWorld))"
  have p: "ParseMultipartForm notMultipart = Inl ErrNotMultipart"
    by (simp add: ParseMultipartForm_def notMultipart_def)
  have f: "rq s2 = notMultipart" "wroteHeader (resp s2) = None" "Body (resp s2) = []"
    "calls s2 = [CallOutgoingFunction, CallOutgoingFunction]"
    by (simp_all add: s2_def runOutgoingFunction_def initial_def called_def response_defs
          exampleHandler_def exampleHook_def)
  from upload_parse_error[OF s2_def, of ErrNotMultipart exampleLibrary] p f
  obtain s' where "handleUploadRequest exampleLibrary exampleHandler (initial newResponse notMultipart storedWorld) = Some s'"
    "StatusCode (resp s') = Some 500"
    "Body (resp s') = Body (resp s2) @ ''500 an internal error occurred'' @ [CHR 0x0A]"
    "store s' = storedWorld" "calls s' = calls s2 @ [CallParseMultipartForm]"
    by auto
  with f p show ?thesis by simp
qed

subsection \<open>C4: the body of the upload response\<close>

text \<open>
  C4. Every successful upload is answered 200 with the body
  \<open>protocolHost + id + extension\<close>, the extension being the file name from its last dot
  on, or empty when the name has no dot, so that an upload without a dot in its name is
  answered with \<open>protocolHost + id\<close>. \<open>handleUploadRequest2\<close> in router.go slices the
  file name at \<open>strings.LastIndex(name, ".")\<close> without looking at the result: for the
  name \<open>README\<close> the index is -1 and the handler panics after it has written the status
  line, with the entry saved and the blob written, and no body is sent. The second variant
  of the handler tests the index and answers with \<open>protocolHost + id\<close>
  (lemmas \<open>sibling_upload_round_trip\<close> and \<open>sibling_upload_example\<close>).
\<close>

theorem upload_without_dot_panics:
  "LastIndex ''README'' (CHR ''.'') = -1
   \<and> (\<exists>s. handleUploadRequest exampleLibrary exampleHandler
          (initial newResponse (uploadOf ''README'' ''A'') emptyWorld) = Some s
      \<and> panicked s = Some ''slice bounds out of range''
      \<and> Body (resp s) = []
      \<and> Body (resp s) \<noteq> ''https://localhost/6162636465666768696a6b6c''
      \<and> map Filename (rows (store s)) = [''README''])"
  by (simp add: handler_defs response_defs storage_defs example_defs Hex_example Let_def)

subsection \<open>C5: the upload of an empty file\<close>

text \<open>
  C5. The upload of a zero-byte file succeeds with status 200 and leaves an entry with
  an empty blob, which a get request then returns with status 200 and an empty body. In
  \<open>handleUploadRequest2\<close> the read of the first 512 bytes of an empty file reports
  \<open>EOF\<close>, which the handler answers with status 500 and then goes on: the entry is
  saved, its blob is empty, the URL is appended to the error message, and the status of
  the response stays 500. A get request for the URL is answered 200 with an empty body.
\<close>

theorem zero_byte_upload_answers_500:
  "\<exists>s. handleUploadRequest exampleLibrary exampleHandler
          (initial newResponse (uploadOf ''empty.txt'' []) emptyWorld) = Some s
      \<and> StatusCode (resp s) = Some 500 \<and> StatusCode (resp s) \<noteq> Some 200
      \<and> Body (resp s) = ''500 an internal error occurred'' @ [CHR 0x0A]
                          @ ''https://localhost/6162636465666768696a6b6c.txt''
      \<and> panicked s = None
      \<and> map Id (rows (store s)) = [''abcdefghijkl'']
      \<and> files (store s) ''files/6162636465666768696a6b6c'' = Some []
      \<and> StatusCode (resp (handleGetRequest exampleLibrary exampleHandler
            (initial newResponse (getOf ''6162636465666768696a6b6c.txt'' []) (store s)))) = Some 200
      \<and> Body (resp (handleGetRequest exampleLibrary exampleHandler
            (initial newResponse (getOf ''6162636465666768696a6b6c.txt'' []) (store s)))) = []"
  by (simp add: handler_defs response_defs storage_defs example_defs decode_examples Hex_example Let_def)

subsection \<open>C6: a lookup miss is answered 404\<close>

text \<open>
  C6. A get request whose stripped identifier matches no stored entry is answered
  404 Not Found and never 500, also when the identifier is not a well-formed object id:
  \<open>LoadStorageEntry\<close> reports the miss as success flag false with no error, which is not
  what it reports for a failed query. The stripped identifier is the segment up to its
  last dot; a miss is an identifier that is not 24 hexadecimal digits, or one that the
  working database has no row for. The status is the one on the wire when the hook has
  left the status line unwritten.
\<close>

theorem get_miss_not_found:
  assumes "s1 = runOutgoingFunction h (initial w r wd)"
    and "seg = Vars (rq s1) ''id''"
    and "key = take (nat (LastIndex seg (CHR ''.''))) seg"
    and "s' = handleGetRequest lib h (initial w r wd)"
    and "\<not> IsObjectIdHex key \<or>
         (dbFault wd = None \<and> (\<forall>oid. DecodeString key = Some oid \<longrightarrow> oid \<notin> Id ` set (rows wd)))"
    and "wroteHeader (resp s1) = None"
  shows "LoadStorageEntry wd key = (False, None, emptyEntry)
       \<and> StatusCode (resp s') = Some 404 \<and> StatusCode (resp s') \<noteq> Some 500
       \<and> panicked s' = None"
proof -
  note miss = LoadStorageEntry_miss[OF assms(5)]
  have st: "store s1 = wd" "panicked s1 = None"
    using assms(1) by (simp_all add: initial_def)
  have "resp s' = http_NotFound (resp s1) \<and> panicked s' = None"
    unfolding assms(4) handleGetRequest_def
    using assms(1,2,3) miss st
    by (simp add: Let_def)
  with assms(6) miss show ?thesis
    by (simp add: http_NotFound_def http_Error_fresh)
qed

text \<open>A well-formed identifier without a row, and a malformed one.\<close>

theorem get_miss_not_found_witness:
  "IsObjectIdHex ''6162636465666768696a6b6d''
   \<and> LoadStorageEntry storedWorld ''6162636465666768696a6b6d'' = (False, None, emptyEntry)
   \<and> StatusCode (resp (handleGetRequest exampleLibrary exampleHandler
        (initial newResponse (getOf ''6162636465666768696a6b6d.png'' []) storedWorld))) = Some 404
   \<and> \<not> IsObjectIdHex ''nosuchfile''
   \<and> StatusCode (resp (handleGetRequest exampleLibrary exampleHandler
        (initial newResponse (getOf ''nosuchfile.png'' []) storedWorld))) = Some 404"
proof -
  have a: "LoadStorageEntry storedWorld ''6162636465666768696a6b6d'' = (False, None, emptyEntry)
     \<and> StatusCode (resp (handleGetRequest exampleLibrary exampleHandler
        (initial newResponse (getOf ''6162636465666768696a6b6d.png'' []) storedWorld))) = Some 404"
    using get_miss_not_found[OF refl refl refl refl,
        of exampleHandler newResponse "getOf ''6162636465666768696a6b6d.png'' []" storedWorld exampleLibrary]
    by (simp add: runOutgoingFunction_def initial_def called_def response_defs example_defs
          IsObjectIdHex_def decode_examples)
  have b: "StatusCode (resp (handleGetRequest exampleLibrary exampleHandler
        (initial newResponse (getOf ''nosuchfile.png'' []) storedWorld))) = Some 404"
    using get_miss_not_found[OF refl refl refl refl,
        of exampleHandler newResponse "getOf ''nosuchfile.png'' []" storedWorld exampleLibrary]
    by (simp add: runOutgoingFunction_def initial_def called_def response_defs example_defs
          IsObjectIdHex_def decode_examples)
  have c: "IsObjectIdHex ''6162636465666768696a6b6d''" "\<not> IsObjectIdHex ''nosuchfile''"
    by (simp_all add: IsObjectIdHex_def decode_examples)
  from a b c show ?thesis by blast
qed

subsection \<open>C7: the conditional get\<close>

text \<open>
  C7. When a get request resolves to an entry and its \<open>If-None-Match\<close> header equals the
  entry's etag value, the handler writes status 304 and nothing else: the body is what
  it was, and the read capability of the entry is never opened. The status on the wire
  is 304 when the hook has left the status line unwritten.
\<close>

theorem conditional_get_not_modified:
  assumes "s1 = runOutgoingFunction h (initial w r wd)"
    and "seg = Vars (rq s1) ''id''"
    and "s' = handleGetRequest lib h (initial w r wd)"
    and "LastIndex seg (CHR ''.'') \<noteq> -1"
    and "LoadStorageEntry wd (take (nat (LastIndex seg (CHR ''.''))) seg) = (True, None, entry)"
    and "Header_Get (ReqHeader (rq s1)) ''If-None-Match'' = GetETagValue lib entry"
  shows "resp s' = WriteHeader 304 (resp s1)
       \<and> Body (resp s') = Body (resp s1)
       \<and> (wroteHeader (resp s1) = None \<longrightarrow> StatusCode (resp s') = Some 304)
       \<and> CallGetReader \<notin> set (calls s')
       \<and> store s' = wd \<and> panicked s' = None"
proof -
  have st: "store s1 = wd" "panicked s1 = None"
    using assms(1) by (simp_all add: initial_def)
  have c: "CallGetReader \<notin> set (calls s1)"
    using assms(1) by (simp add: runOutgoingFunction_calls initial_def split: option.splits)
  have "s' = (called (CallLoadStorageEntry (take (nat (LastIndex seg (CHR ''.''))) seg)) s1)
               \<lparr>resp := WriteHeader 304 (resp s1)\<rparr>"
    unfolding assms(3) handleGetRequest_def
    using assms(1,2,4,5,6) st by (simp add: Let_def)
  then show ?thesis using st c
    by (auto simp: WriteHeader_def StatusCode_def split: option.splits)
qed

theorem conditional_get_not_modified_witness:
  "LoadStorageEntry storedWorld ''6162636465666768696a6b6c'' = (True, None, storedEntry)
   \<and> GetETagValue exampleLibrary storedEntry = ''6162636465666768696a6b6c''
   \<and> StatusCode (resp (handleGetRequest exampleLibrary exampleHandler
        (initial newResponse (getOf ''6162636465666768696a6b6c.png'' [''6162636465666768696a6b6c'']) storedWorld)))
       = Some 304
   \<and> Body (resp (handleGetRequest exampleLibrary exampleHandler
        (initial newResponse (getOf ''6162636465666768696a6b6c.png'' [''6162636465666768696a6b6c'']) storedWorld)))
       = []
   \<and> CallGetReader \<notin> set (calls (handleGetRequest exampleLibrary exampleHandler
        (initial newResponse (getOf ''6162636465666768696a6b6c.png'' [''6162636465666768696a6b6c'']) storedWorld)))"
proof -
  have l: "LoadStorageEntry storedWorld ''6162636465666768696a6b6c'' = (True, None, storedEntry)"
    by (simp add: LoadStorageEntry_def FindId_One_def IsObjectIdHex_def decode_examples
          storedWorld_def storedEntry_def)
  have e: "GetETagValue exampleLibrary storedEntry = ''6162636465666768696a6b6c''"
    by (simp add: exampleLibrary_def storedEntry_def Hex_example)
  from conditional_get_not_modified[OF refl refl refl,
        of exampleHandler newResponse
           "getOf ''6162636465666768696a6b6c.png'' [''6162636465666768696a6b6c'']"
           storedWorld storedEntry exampleLibrary] l e
  show ?thesis
    by (simp add: runOutgoingFunction_def initial_def called_def response_defs
          exampleHandler_def exampleHook_def getOf_def)
qed

subsection \<open>C8: disposition, content type and etag of a delivered entry\<close>

text \<open>
  C8. When an entry is delivered, the \<open>Content-Disposition\<close> header sent is
  \<open>inline\<close> with the entry's file name if the entry's content type folds equal to some
  member of the whitelist and \<open>attachment\<close> with the file name otherwise, and in both
  cases the \<open>Content-Type\<close> and \<open>ETag\<close> headers sent are the entry's. An entry is delivered
  when the request resolves to it, the etag precondition does not match and its blob
  opens; the headers sent are those of the status line the handler writes, the hook
  having left it unwritten.
\<close>

theorem delivery_headers:
  assumes "s1 = runOutgoingFunction h (initial w r wd)"
    and "seg = Vars (rq s1) ''id''"
    and "s' = handleGetRequest lib h (initial w r wd)"
    and "LastIndex seg (CHR ''.'') \<noteq> -1"
    and "LoadStorageEntry wd (take (nat (LastIndex seg (CHR ''.''))) seg) = (True, None, entry)"
    and "Header_Get (ReqHeader (rq s1)) ''If-None-Match'' \<noteq> GetETagValue lib entry"
    and "GetReadSeeker (Storage h) entry wd = Inr blob"
    and "wroteHeader (resp s1) = None"
  shows "StatusCode (resp s') = Some 200
       \<and> sentHeader (resp s') ''Content-Disposition'' =
           [dispositionValueFormat
              (if \<exists>v \<in> set (WhitelistedContentTypes h). EqualFold lib v (ContentType entry)
               then ''inline'' else ''attachment'') (Filename entry)]
       \<and> sentHeader (resp s') ''Content-Type'' = [ContentType entry]
       \<and> sentHeader (resp s') ''ETag'' = [GetETagValue lib entry]"
proof -
  define s2 where "s2 = called (CallLoadStorageEntry (take (nat (LastIndex seg (CHR ''.''))) seg)) s1"
  have st: "store s2 = wd" "wroteHeader (resp s2) = None"
    using assms(1,8) by (simp_all add: s2_def initial_def)
  have "s' = sendEntry lib h entry s2"
    unfolding assms(3) handleGetRequest_def
    using assms(1,2,4,5,6) by (simp add: Let_def s2_def initial_def)
  with sendEntry_sent[of h entry s2 blob lib] st assms(7)
  show ?thesis
    by (simp add: StatusCode_def sentHeader_def)
qed

text \<open>
  The stored entry has content type \<open>IMAGE/PNG\<close>, the whitelist has \<open>image/png\<close>: the
  entry is sent inline.
\<close>

theorem delivery_headers_witness:
  "LoadStorageEntry storedWorld ''6162636465666768696a6b6c'' = (True, None, storedEntry)
   \<and> GetReadSeeker (Storage exampleHandler) storedEntry storedWorld = Inr ''hello''
   \<and> StatusCode (resp (handleGetRequest exampleLibrary exampleHandler
        (initial newResponse (getOf ''6162636465666768696a6b6c.png'' []) storedWorld))) = Some 200
   \<and> sentHeader (resp (handleGetRequest exampleLibrary exampleHandler
        (initial newResponse (getOf ''6162636465666768696a6b6c.png'' []) storedWorld))) ''Content-Disposition''
       = [''inline; filename='' @ [CHR 0x22] @ ''shot.png'' @ [CHR 0x22]]
   \<and> sentHeader (resp (handleGetRequest exampleLibrary exampleHandler
        (initial newResponse (getOf ''6162636465666768696a6b6c.png'' []) storedWorld))) ''Content-Type''
       = [''IMAGE/PNG'']
   \<and> sentHeader (resp (handleGetRequest exampleLibrary exampleHandler
        (initial newResponse (getOf ''6162636465666768696a6b6c.png'' []) storedWorld))) ''ETag''
       = [''6162636465666768696a6b6c'']"
proof -
  have l: "LoadStorageEntry storedWorld ''6162636465666768696a6b6c'' = (True, None, storedEntry)"
    by (simp add: LoadStorageEntry_def FindId_One_def IsObjectIdHex_def decode_examples
          storedWorld_def storedEntry_def)
  have g: "GetReadSeeker (Storage exampleHandler) storedEntry storedWorld = Inr ''hello''"
    by (simp add: GetReadSeeker_def GetId_def Hex_example example_defs)
  have e: "GetETagValue exampleLibrary storedEntry = ''6162636465666768696a6b6c''"
    by (simp add: exampleLibrary_def storedEntry_def Hex_example)
  have f: "(\<exists>v \<in> set (WhitelistedContentTypes exampleHandler).
              EqualFold exampleLibrary v (ContentType storedEntry))"
    by code_simp
  from delivery_headers[OF refl refl refl _ _ _ g,
        of newResponse "getOf ''6162636465666768696a6b6c.png'' []" exampleLibrary] l e f g
  show ?thesis
    by (simp add: runOutgoingFunction_def initial_def called_def response_defs
          exampleHandler_def exampleHook_def getOf_def storedEntry_def dispositionValueFormat_def)
qed

subsection \<open>C9: one row per identifier\<close>

text \<open>
  C9. The storage keeps at most one metadata row per id and never gives out an id that a
  row already carries: \<open>Save\<close> draws identifiers until the collection holds no row with
  the one drawn and only then inserts the row (lemma \<open>Save_retries_until_free\<close>), so
  every run of saves that starts from a collection with pairwise distinct ids ends in
  one, and the ids of the rows it inserted are exactly the ids it reported as saved, new
  and pairwise distinct. The saves run one after the other.
\<close>

theorem Save_one_row_per_id:
  assumes "distinct (map Id (rows wd))"
    and "Save_seq es wd = Some (outs, wd')"
  shows "distinct (map Id (rows wd'))
       \<and> map Id (rows wd') = map Id (rows wd) @ map (Id \<circ> snd) (filter (\<lambda>out. fst out = None) outs)"
  using assms(2,1)
proof (induction es arbitrary: wd outs)
  case Nil
  then show ?case by simp
next
  case (Cons e es)
  from Cons.prems(1) obtain err e1 wd1 outs1 where
    s: "Save e wd = Some (err, e1, wd1)" and
    r: "Save_seq es wd1 = Some (outs1, wd')" and
    o: "outs = (err, e1) # outs1"
    by (auto split: option.splits prod.splits)
  note st = Save_step[OF s]
  have d1: "distinct (map Id (rows wd1))"
    using st Cons.prems(2) by (cases err) auto
  note ih = Cons.IH[OF r d1]
  show ?case
  proof (cases err)
    case None
    with st have "map Id (rows wd1) = map Id (rows wd) @ [Id e1]" by simp
    with ih o None have "map Id (rows wd') =
        map Id (rows wd) @ map (Id \<circ> snd) (filter (\<lambda>out. fst out = None) outs)" by simp
    with ih show ?thesis by blast
  next
    case (Some a)
    with st have "rows wd1 = rows wd" by simp
    with ih o Some have "map Id (rows wd') =
        map Id (rows wd) @ map (Id \<circ> snd) (filter (\<lambda>out. fst out = None) outs)" by simp
    with ih show ?thesis by blast
  qed
qed

text \<open>
  Two saves into a collection that holds the first identifier to come: the first save
  skips it and takes the second, the second save skips that one and takes the fourth.
\<close>

theorem Save_one_row_per_id_witness:
  "distinct (map Id (rows storedWorld))
   \<and> Save_seq [emptyEntry, emptyEntry] storedWorld =
       Some ([(None, emptyEntry\<lparr>Id := ''mnopqrstuvwx''\<rparr>), (None, emptyEntry\<lparr>Id := ''yzabcdefghij''\<rparr>)],
             storedWorld\<lparr>rows := [storedEntry, emptyEntry\<lparr>Id := ''mnopqrstuvwx''\<rparr>,
                                   emptyEntry\<lparr>Id := ''yzabcdefghij''\<rparr>],
                          objectIds := []\<rparr>)
   \<and> distinct (map Id (rows (storedWorld\<lparr>rows := [storedEntry, emptyEntry\<lparr>Id := ''mnopqrstuvwx''\<rparr>,
                                   emptyEntry\<lparr>Id := ''yzabcdefghij''\<rparr>],
                          objectIds := []\<rparr>)))"
proof -
  have d: "distinct (map Id (rows storedWorld))"
    by (simp add: storedWorld_def)
  have r: "Save_seq [emptyEntry, emptyEntry] storedWorld =
       Some ([(None, emptyEntry\<lparr>Id := ''mnopqrstuvwx''\<rparr>), (None, emptyEntry\<lparr>Id := ''yzabcdefghij''\<rparr>)],
             storedWorld\<lparr>rows := [storedEntry, emptyEntry\<lparr>Id := ''mnopqrstuvwx''\<rparr>,
                                   emptyEntry\<lparr>Id := ''yzabcdefghij''\<rparr>],
                          objectIds := []\<rparr>)"
    by (simp add: Save_def Count_def Insert_def storedWorld_def storedEntry_def emptyEntry_def)
  from Save_one_row_per_id[OF d r] d r show ?thesis by blast
qed

subsection \<open>C10: how often the hook runs\<close>

text \<open>
  C10. With a hook set, an upload request runs it exactly twice before the body is
  parsed, once in \<open>handleUploadRequest\<close> and once in \<open>handleUploadRequest2\<close>: the
  request is handled as a handler without hook would handle the response and request that
  two applications of the hook produce, and the calls of every run that returns begin
  with two hook calls and the parse, with no hook call behind them. A get request runs
  the hook exactly once.
\<close>

theorem hook_runs_twice_on_upload:
  assumes "OutgoingFunction h = Some f"
  shows "handleUploadRequest lib h (initial w r wd) =
           handleUploadRequest2 lib (h\<lparr>OutgoingFunction := None\<rparr>)
             \<lparr>resp = fst (f (f (w, r))), rq = snd (f (f (w, r))), store = wd,
              calls = [CallOutgoingFunction, CallOutgoingFunction], panicked = None\<rparr>
       \<and> (\<forall>s'. handleUploadRequest lib h (initial w r wd) = Some s' \<longrightarrow>
            (\<exists>rest. calls s' = CallOutgoingFunction # CallOutgoingFunction # CallParseMultipartForm # rest
                  \<and> CallOutgoingFunction \<notin> set rest \<and> CallParseMultipartForm \<notin> set rest))
       \<and> handleGetRequest lib h (initial w r wd) =
           handleGetRequest lib (h\<lparr>OutgoingFunction := None\<rparr>)
             \<lparr>resp = fst (f (w, r)), rq = snd (f (w, r)), store = wd,
              calls = [CallOutgoingFunction], panicked = None\<rparr>
       \<and> (\<exists>rest. calls (handleGetRequest lib h (initial w r wd)) = CallOutgoingFunction # rest
                  \<and> CallOutgoingFunction \<notin> set rest)"
proof (intro conjI allI impI)
  define t where "t = \<lparr>resp = fst (f (f (w, r))), rq = snd (f (f (w, r))), store = wd,
              calls = [CallOutgoingFunction, CallOutgoingFunction], panicked = None\<rparr>"
  have two: "runOutgoingFunction h (runOutgoingFunction h (initial w r wd)) = t"
    using assms by (simp add: runOutgoingFunction_def initial_def called_def t_def split: prod.splits)
  show "handleUploadRequest lib h (initial w r wd) =
           handleUploadRequest2 lib (h\<lparr>OutgoingFunction := None\<rparr>)
             \<lparr>resp = fst (f (f (w, r))), rq = snd (f (f (w, r))), store = wd,
              calls = [CallOutgoingFunction, CallOutgoingFunction], panicked = None\<rparr>"
    unfolding t_def[symmetric]
    by (simp add: handleUploadRequest_def handleUploadRequest2_def two Let_def
          storeUpload_hook_irrelevant runOutgoingFunction_nil split: sum.splits)
  fix s'
  assume a: "handleUploadRequest lib h (initial w r wd) = Some s'"
  have up: "handleUploadRequest lib h (initial w r wd) =
      (case ParseMultipartForm (rq t) of
         Inl err \<Rightarrow> Some (internalError (called CallParseMultipartForm t))
       | Inr form \<Rightarrow>
           (case FormFile form ''file'' of
              Inl err \<Rightarrow> Some (internalError (called CallFormFile (called CallParseMultipartForm t)))
            | Inr fh \<Rightarrow> storeUpload lib h fh (called CallFormFile (called CallParseMultipartForm t))))"
    by (simp add: handleUploadRequest_def handleUploadRequest2_def two Let_def split: sum.splits)
  show "\<exists>rest. calls s' = CallOutgoingFunction # CallOutgoingFunction # CallParseMultipartForm # rest
                  \<and> CallOutgoingFunction \<notin> set rest \<and> CallParseMultipartForm \<notin> set rest"
  proof (cases "ParseMultipartForm (rq t)")
    case (Inl err)
    with a up show ?thesis by (auto simp: internalError_def t_def)
  next
    case (Inr form)
    show ?thesis
    proof (cases "FormFile form ''file''")
      case (Inl err)
      with a up Inr show ?thesis by (auto simp: internalError_def t_def)
    next
      case fh: (Inr fh)
      with a up Inr have "storeUpload lib h fh (called CallFormFile (called CallParseMultipartForm t)) = Some s'"
        by simp
      from storeUpload_calls[OF this] obtain rest where
        "calls s' = calls (called CallFormFile (called CallParseMultipartForm t)) @ rest"
        "CallOutgoingFunction \<notin> set rest" "CallParseMultipartForm \<notin> set rest" by blast
      then have "calls s' = CallOutgoingFunction # CallOutgoingFunction # CallParseMultipartForm # (CallFormFile # rest)"
        "CallOutgoingFunction \<notin> set (CallFormFile # rest)" "CallParseMultipartForm \<notin> set (CallFormFile # rest)"
        by (simp_all add: t_def)
      then show ?thesis by blast
    qed
  qed
next
  define u where "u = \<lparr>resp = fst (f (w, r)), rq = snd (f (w, r)), store = wd,
              calls = [CallOutgoingFunction], panicked = None\<rparr>"
  have one: "runOutgoingFunction h (initial w r wd) = u"
    using assms by (simp add: runOutgoingFunction_def initial_def called_def u_def split: prod.splits)
  show "handleGetRequest lib h (initial w r wd) =
           handleGetRequest lib (h\<lparr>OutgoingFunction := None\<rparr>)
             \<lparr>resp = fst (f (w, r)), rq = snd (f (w, r)), store = wd,
              calls = [CallOutgoingFunction], panicked = None\<rparr>"
    unfolding u_def[symmetric]
    by (simp add: handleGetRequest_def one Let_def sendEntry_hook_irrelevant runOutgoingFunction_nil
          split: prod.splits)
  have "calls (handleGetRequest lib h (initial w r wd)) = [CallOutgoingFunction] \<or>
        (\<exists>k. calls (handleGetRequest lib h (initial w r wd)) = [CallOutgoingFunction, CallLoadStorageEntry k]) \<or>
        (\<exists>k. calls (handleGetRequest lib h (initial w r wd)) =
               [CallOutgoingFunction, CallLoadStorageEntry k, CallGetReader])"
    by (simp add: handleGetRequest_def one Let_def raise_def internalError_def sendEntry_calls
          split: prod.splits) (simp add: u_def)
  then show "\<exists>rest. calls (handleGetRequest lib h (initial w r wd)) = CallOutgoingFunction # rest
                  \<and> CallOutgoingFunction \<notin> set rest"
    by auto
qed

text \<open>
  The README's kind of hook adds a header value; after an upload request the value is
  there twice.
\<close>

theorem hook_runs_twice_on_upload_witness:
  "OutgoingFunction exampleHandler = Some exampleHook
   \<and> (\<exists>s'. handleUploadRequest exampleLibrary exampleHandler (initial newResponse notMultipart emptyWorld) = Some s'
          \<and> Header (resp s') ''Server'' = [''Golang Webserver'', ''Golang Webserver'']
          \<and> (\<exists>rest. calls s' = CallOutgoingFunction # CallOutgoingFunction # CallParseMultipartForm # rest
                  \<and> CallOutgoingFunction \<notin> set rest \<and> CallParseMultipartForm \<notin> set rest))
   \<and> (\<exists>rest. calls (handleGetRequest exampleLibrary exampleHandler (initial newResponse (getOf ''x.png'' []) storedWorld))
                = CallOutgoingFunction # rest \<and> CallOutgoingFunction \<notin> set rest)"
proof -
  have h: "OutgoingFunction exampleHandler = Some exampleHook"
    by (simp add: exampleHandler_def)
  note t = hook_runs_twice_on_upload[OF h, of exampleLibrary newResponse _ _]
  obtain s' where
    s: "handleUploadRequest exampleLibrary exampleHandler (initial newResponse notMultipart emptyWorld) = Some s'"
    and hd: "Header (resp s') ''Server'' = [''Golang Webserver'', ''Golang Webserver'']"
    by (simp add: handler_defs response_defs example_defs Let_def)
  from t[of notMultipart emptyWorld] s
  have "\<exists>rest. calls s' = CallOutgoingFunction # CallOutgoingFunction # CallParseMultipartForm # rest
                  \<and> CallOutgoingFunction \<notin> set rest \<and> CallParseMultipartForm \<notin> set rest"
    by blast
  with s hd h t[of "getOf ''x.png'' []" storedWorld] show ?thesis by blast
qed

end
